theory Spec2Isabelle
  imports Main "HOL-Library.Word" "HOL-Library.Sublist"
begin

unbundle bit_operations_syntax

section \<open>Common definitions\<close>

type_synonym u8 = "8 word"

text \<open>
  The status codes of \<^verbatim>\<open>globals.h\<close> that the modelled code uses. They are C++
  \<^verbatim>\<open>int\<close> constants; the model keeps them as integers.
\<close>

definition OK :: int where "OK = 0"
definition NOT_CONNECTED :: int where "NOT_CONNECTED = -4"
definition WRITE_ERROR :: int where "WRITE_ERROR = -7"
definition READ_TIMEOUT :: int where "READ_TIMEOUT = -12"
definition BUSY_ERROR :: int where "BUSY_ERROR = -16"
definition DEVICE_NOT_FOUND :: int where "DEVICE_NOT_FOUND = -20"
definition MISSING_GT1724 :: int where "MISSING_GT1724 = -50"
definition MISSING_LMX :: int where "MISSING_LMX = -51"
definition MISSING_LMX_DEFS :: int where "MISSING_LMX_DEFS = -52"
definition MISSING_PCA :: int where "MISSING_PCA = -53"
definition MISSING_EEPROM :: int where "MISSING_EEPROM = -54"
definition ALL_LANES :: int where "ALL_LANES = -1"

text \<open>
  C++ integer division truncates towards zero and \<^verbatim>\<open>%\<close> takes the sign of the
  dividend; HOL's \<open>div\<close> and \<open>mod\<close> round downwards. Both are written out.
\<close>

definition cpp_div :: "int \<Rightarrow> int \<Rightarrow> int" where
  "cpp_div a b = (if (a < 0) = (b < 0) then \<bar>a\<bar> div \<bar>b\<bar> else - (\<bar>a\<bar> div \<bar>b\<bar>))"

definition cpp_mod :: "int \<Rightarrow> int \<Rightarrow> int" where
  "cpp_mod a b = a - b * cpp_div a b"

text \<open>
  \<^verbatim>\<open>QString::arg(int)\<close> renders its argument in decimal.
\<close>

fun dec_nat :: "nat \<Rightarrow> string" where
  "dec_nat n =
     (if n < 10 then [''0123456789'' ! n]
      else dec_nat (n div 10) @ [''0123456789'' ! (n mod 10)])"

declare dec_nat.simps [simp del]

definition dec_int :: "int \<Rightarrow> string" where
  "dec_int i = (if i < 0 then CHR ''-'' # dec_nat (nat (- i)) else dec_nat (nat i))"


section \<open>Channel mapper (\<^verbatim>\<open>BertChannel.cpp\<close>)\<close>

text \<open>
  The constructor \<^verbatim>\<open>BertChannel::BertChannel(int channel, QWidget *parent)\<close> derives
  the physical indices of a displayed channel in its member initialiser list and then
  decides whether the channel owns a core temperature read-out. The widgets themselves
  (\<^verbatim>\<open>BertUIPane\<close>, \<^verbatim>\<open>BertUILabel\<close>, the pattern generator and error detector panels)
  belong to the user interface; of the temperature read-out the model keeps what the
  constructor computes: the lane it is created for, the label text and the object name
  of the value label. \<^verbatim>\<open>groupTemp = NULL\<close> is \<open>None\<close>.

  The argument and the members are C++ \<^verbatim>\<open>int\<close>, 32 bits wide. The model computes
  on the integers and brings the result of every addition, subtraction and
  multiplication back into the 32-bit range by two's-complement wrap-around, which is
  what the compiled constructor does when a product leaves the range (the C++ standard
  leaves signed overflow undefined). A channel number is a value of that range.
\<close>

definition wrap32 :: "int \<Rightarrow> int" where
  "wrap32 x = (x + 2147483648) mod 4294967296 - 2147483648"

record temp_readout =
  tempLane :: int
  labelText :: string
  valueName :: string

record BertChannel =
  channel :: int
  core :: int
  board :: int
  pgLane :: int
  edLane :: int
  esLane :: int
  ctLane :: int
  eyeScanStartedFlag :: bool
  edErrorflasherOn :: bool
  edOptionsChanged :: bool
  groupTemp :: "temp_readout option"

definition new_BertChannel :: "int \<Rightarrow> BertChannel" where
  "new_BertChannel ch =
     (let co = cpp_div (wrap32 (ch - 1)) 2;
          ct = wrap32 (wrap32 (ch - 1) * 2)
      in \<lparr> channel = ch,
           core = co,
           board = cpp_div (wrap32 (ch - 1)) 4,
           pgLane = wrap32 (wrap32 (ch - 1) * 2),
           edLane = wrap32 (wrap32 (ch * 2) - 1),
           esLane = wrap32 (wrap32 (ch * 2) - 1),
           ctLane = ct,
           eyeScanStartedFlag = False,
           edErrorflasherOn = False,
           edOptionsChanged = False,
           groupTemp =
             (if cpp_mod ct 4 = 0
              then Some \<lparr> tempLane = ct,
                          labelText = (if ct < 5 then ''Master'' else ''Slave'') @ '' ''
                                        @ dec_int (wrap32 (cpp_mod co 2 + 1)) @ '':'',
                          valueName = ''CoreTemperature_'' @ dec_int ct \<rparr>
              else None) \<rparr>)"


section \<open>Transport (\<^verbatim>\<open>I2CComms\<close>)\<close>

text \<open>
  The class \<^verbatim>\<open>I2CComms\<close> is used by the driver and by the worker but is not among the
  sources. Its operations are therefore parameters of the model: a record of functions
  over a state \<open>'b\<close>, which stands for the comms object and everything reached through
  it (the serial port, the bus, the chips). Every operation returns the state it leaves
  behind. \<^verbatim>\<open>read8\<close> and \<^verbatim>\<open>write8\<close> are only ever called with a count of 1, so the data
  buffer is one byte; \<^verbatim>\<open>read8\<close> receives the buffer's old content and returns its new
  content, whatever the result code.

  The register numbers \<^verbatim>\<open>REG_INPUT\<close>, \<^verbatim>\<open>REG_OUPUT\<close>, \<^verbatim>\<open>REG_POLARITY\<close> and
  \<^verbatim>\<open>REG_CONFIG\<close> are declared in \<^verbatim>\<open>PCA9557.h\<close>, which is not among the sources
  either; the model keeps them symbolic.
\<close>

datatype pca_register = REG_INPUT | REG_OUPUT | REG_POLARITY | REG_CONFIG

record 'b I2CComms =
  portIsOpen :: "'b \<Rightarrow> bool"
  comms_open :: "'b \<Rightarrow> string \<Rightarrow> int \<times> 'b"
  comms_close :: "'b \<Rightarrow> 'b"
  pingAddress :: "'b \<Rightarrow> u8 \<Rightarrow> int \<times> 'b"
  read8 :: "'b \<Rightarrow> u8 \<Rightarrow> pca_register \<Rightarrow> u8 \<Rightarrow> int \<times> u8 \<times> 'b"
  write8 :: "'b \<Rightarrow> u8 \<Rightarrow> pca_register \<Rightarrow> u8 \<Rightarrow> int \<times> 'b"


section \<open>I/O expander driver (\<^verbatim>\<open>PCA9557.cpp\<close>)\<close>

text \<open>
  \<^verbatim>\<open>Q_ASSERT\<close> is Qt's debug assertion; it expands to nothing when the program is built
  with \<^verbatim>\<open>QT_NO_DEBUG\<close>. Where the sources assert a condition they also test it: the
  assertion is followed by a guard (\<^verbatim>\<open>if (!comms->portIsOpen()) return ...\<close>) that handles
  the case the assertion excludes. The model is of the build without assertions and
  follows the guards.

  A driver object is a record of its members; the Qt signals it emits are appended to
  \<open>emitted\<close>. A method takes the transport operations, the object and the transport
  state, and returns its result with the object and the state as it leaves them.
\<close>

datatype PinDirection = NORMAL_INPUT | INVERTED_INPUT | OUTPUT

datatype pca_signal =
    ListPopulate string int "string list" nat
  | ShowMessage string
  | Result int int
  | LMXLockDetect int bool

record PCA9557 =
  i2cAddress :: u8
  deviceID :: int
  regInput :: u8
  regOutput :: u8
  regPolarity :: u8
  regConfig :: u8
  emitted :: "pca_signal list"

definition TRIGGER_DIVIDE_BITMASK :: u8 where "TRIGGER_DIVIDE_BITMASK = 0xC0"
definition TRIGGER_DIVIDE_LOOKUP :: "u8 list" where "TRIGGER_DIVIDE_LOOKUP = [0xC0, 0x80, 0x40]"
definition TRIGGER_DIVIDE_LIST :: "string list" where "TRIGGER_DIVIDE_LIST = [''1/2'', ''1/4'', ''1/8'']"
definition TRIGGER_DIVIDE_DEFAULT_INDEX :: nat where "TRIGGER_DIVIDE_DEFAULT_INDEX = 0"
definition EEPROM_WC_BITMASK :: u8 where "EEPROM_WC_BITMASK = 0x04"
definition EEPROM_WRITE_ENABLE :: u8 where "EEPROM_WRITE_ENABLE = 0x00"
definition EEPROM_WRITE_DISABLE :: u8 where "EEPROM_WRITE_DISABLE = 0x04"

definition emit :: "pca_signal list \<Rightarrow> PCA9557 \<Rightarrow> PCA9557" where
  "emit sigs pca = pca\<lparr>emitted := emitted pca @ sigs\<rparr>"

text \<open>
  A function declared \<^verbatim>\<open>bool\<close> that returns an \<^verbatim>\<open>int\<close> returns whether the
  \<^verbatim>\<open>int\<close> is not zero.
\<close>

definition int_as_bool :: "int \<Rightarrow> bool" where
  "int_as_bool i \<longleftrightarrow> i \<noteq> 0"

text \<open>
  \<^verbatim>\<open>bool PCA9557::ping(I2CComms *comms, const uint8_t i2cAddress)\<close>, a static member.
  The local \<^verbatim>\<open>regPolarity\<close> starts as 0 and \<^verbatim>\<open>regPolarityNew\<close> as \<^verbatim>\<open>0x55\<close>; the
  result of the last \<^verbatim>\<open>write8\<close> is not looked at.
\<close>

definition PCA9557_ping :: "'b I2CComms \<Rightarrow> 'b \<Rightarrow> u8 \<Rightarrow> bool \<times> 'b" where
  "PCA9557_ping c b address =
     (if \<not> portIsOpen c b then (int_as_bool NOT_CONNECTED, b)
      else case pingAddress c b address of (result, b1) \<Rightarrow>
        if result \<noteq> OK then (False, b1)
        else case read8 c b1 address REG_POLARITY 0 of (result, regPolarity0, b2) \<Rightarrow>
          if result \<noteq> OK then (False, b2)
          else case write8 c b2 address REG_POLARITY 0x55 of (result, b3) \<Rightarrow>
            if result \<noteq> OK then (False, b3)
            else case read8 c b3 address REG_POLARITY 0x55 of (result, regPolarityNew, b4) \<Rightarrow>
              if result \<noteq> OK then (False, b4)
              else case write8 c b4 address REG_POLARITY regPolarity0 of (_, b5) \<Rightarrow>
                (regPolarityNew = 0x55, b5))"

definition getOptions :: "PCA9557 \<Rightarrow> PCA9557" where
  "getOptions pca =
     emit [ListPopulate ''listLMXTrigOutDivRatio'' ALL_LANES TRIGGER_DIVIDE_LIST
             TRIGGER_DIVIDE_DEFAULT_INDEX] pca"

definition or_if :: "bool \<Rightarrow> u8 \<Rightarrow> u8 \<Rightarrow> u8" where
  "or_if cond bits reg = (if cond then reg OR bits else reg)"

definition configurePins ::
  "'b I2CComms \<Rightarrow> PCA9557 \<Rightarrow> 'b \<Rightarrow> PinDirection \<Rightarrow> PinDirection \<Rightarrow> PinDirection \<Rightarrow> PinDirection
     \<Rightarrow> PinDirection \<Rightarrow> PinDirection \<Rightarrow> PinDirection \<Rightarrow> PinDirection \<Rightarrow> int \<times> PCA9557 \<times> 'b" where
  "configurePins c pca b p0Dir p1Dir p2Dir p3Dir p4Dir p5Dir p6Dir p7Dir =
     (if \<not> portIsOpen c b then (NOT_CONNECTED, pca, b)
      else
        let cfg = or_if (p7Dir \<noteq> OUTPUT) 0x80 (or_if (p6Dir \<noteq> OUTPUT) 0x40
                 (or_if (p5Dir \<noteq> OUTPUT) 0x20 (or_if (p4Dir \<noteq> OUTPUT) 0x10
                 (or_if (p3Dir \<noteq> OUTPUT) 0x08 (or_if (p2Dir \<noteq> OUTPUT) 0x04
                 (or_if (p1Dir \<noteq> OUTPUT) 0x02 (or_if (p0Dir \<noteq> OUTPUT) 0x01 0x00)))))));
            pca1 = pca\<lparr>regConfig := cfg\<rparr>
        in case write8 c b (i2cAddress pca1) REG_CONFIG (regConfig pca1) of (result, b1) \<Rightarrow>
          if result \<noteq> OK then (result, pca1, b1)
          else
            let pol = or_if (p7Dir = INVERTED_INPUT) 0x80 (or_if (p6Dir = INVERTED_INPUT) 0x40
                     (or_if (p5Dir = INVERTED_INPUT) 0x20 (or_if (p4Dir = INVERTED_INPUT) 0x10
                     (or_if (p3Dir = INVERTED_INPUT) 0x08 (or_if (p2Dir = INVERTED_INPUT) 0x04
                     (or_if (p1Dir = INVERTED_INPUT) 0x02 (or_if (p0Dir = INVERTED_INPUT) 0x01 0x00)))))));
                pca2 = pca1\<lparr>regPolarity := pol\<rparr>
            in case write8 c b1 (i2cAddress pca2) REG_POLARITY (regPolarity pca2) of (result, b2) \<Rightarrow>
              if result \<noteq> OK then (result, pca2, b2)
              else (OK, pca2, b2))"

definition writePins :: "'b I2CComms \<Rightarrow> PCA9557 \<Rightarrow> 'b \<Rightarrow> int \<times> PCA9557 \<times> 'b" where
  "writePins c pca b =
     (if \<not> portIsOpen c b then (NOT_CONNECTED, pca, b)
      else case write8 c b (i2cAddress pca) REG_OUPUT (regOutput pca) of (result, b1) \<Rightarrow>
        if result \<noteq> OK then (result, pca, b1)
        else (OK, pca, b1))"

definition readPins :: "'b I2CComms \<Rightarrow> PCA9557 \<Rightarrow> 'b \<Rightarrow> int \<times> PCA9557 \<times> 'b" where
  "readPins c pca b =
     (if \<not> portIsOpen c b then (NOT_CONNECTED, pca, b)
      else case read8 c b (i2cAddress pca) REG_INPUT (regInput pca) of (result, buf, b1) \<Rightarrow>
        if result \<noteq> OK then (result, pca\<lparr>regInput := buf\<rparr>, b1)
        else (OK, pca\<lparr>regInput := buf\<rparr>, b1))"

definition setPins :: "'b I2CComms \<Rightarrow> PCA9557 \<Rightarrow> 'b \<Rightarrow> u8 \<Rightarrow> int \<times> PCA9557 \<times> 'b" where
  "setPins c pca b val = writePins c (pca\<lparr>regOutput := val\<rparr>) b"

text \<open>\<^verbatim>\<open>getPins\<close> also returns what it stores through its pointer argument.\<close>

definition getPins :: "'b I2CComms \<Rightarrow> PCA9557 \<Rightarrow> 'b \<Rightarrow> int \<times> u8 \<times> PCA9557 \<times> 'b" where
  "getPins c pca b =
     (case readPins c pca b of (result, pca1, b1) \<Rightarrow> (result, regInput pca1, pca1, b1))"

definition updatePins :: "'b I2CComms \<Rightarrow> PCA9557 \<Rightarrow> 'b \<Rightarrow> u8 \<Rightarrow> u8 \<Rightarrow> int \<times> PCA9557 \<times> 'b" where
  "updatePins c pca b bitmask val =
     (let regNew = (regOutput pca AND (NOT bitmask)) OR val
      in case setPins c pca b regNew of (result, pca1, b1) \<Rightarrow>
        if result \<noteq> OK
        then (result, emit [ShowMessage ''I/O controller error!'', Result result ALL_LANES] pca1, b1)
        else (result, pca1, b1))"

definition PCA9557_init :: "'b I2CComms \<Rightarrow> PCA9557 \<Rightarrow> 'b \<Rightarrow> int \<times> PCA9557 \<times> 'b" where
  "PCA9557_init c pca b =
     (case configurePins c pca b NORMAL_INPUT NORMAL_INPUT OUTPUT NORMAL_INPUT
             NORMAL_INPUT NORMAL_INPUT OUTPUT OUTPUT of (result, pca1, b1) \<Rightarrow>
        if result \<noteq> OK
        then (result, emit [ShowMessage ''Error configuring I/O controller!''] pca1, b1)
        else case setPins c pca1 b1
                    ((TRIGGER_DIVIDE_LOOKUP ! TRIGGER_DIVIDE_DEFAULT_INDEX) OR EEPROM_WRITE_DISABLE)
             of (result, pca2, b2) \<Rightarrow>
          if result \<noteq> OK
          then (result, emit [ShowMessage ''Error configuring I/O controller!''] pca2, b2)
          else (result, pca2, b2))"

text \<open>
  The slots. \<^verbatim>\<open>SelectTriggerDivide\<close> leaves without doing anything when the index is
  outside the lookup table.
\<close>

definition SelectTriggerDivide :: "'b I2CComms \<Rightarrow> PCA9557 \<Rightarrow> 'b \<Rightarrow> int \<Rightarrow> PCA9557 \<times> 'b" where
  "SelectTriggerDivide c pca b index =
     (if index < 0 \<or> index \<ge> int (length TRIGGER_DIVIDE_LOOKUP) then (pca, b)
      else case updatePins c pca b TRIGGER_DIVIDE_BITMASK (TRIGGER_DIVIDE_LOOKUP ! nat index)
           of (result, pca1, b1) \<Rightarrow> (emit [Result result ALL_LANES] pca1, b1))"

definition SetEEPROMWriteEnable :: "'b I2CComms \<Rightarrow> PCA9557 \<Rightarrow> 'b \<Rightarrow> bool \<Rightarrow> PCA9557 \<times> 'b" where
  "SetEEPROMWriteEnable c pca b enable =
     (let newValue = (if enable then EEPROM_WRITE_ENABLE else EEPROM_WRITE_DISABLE)
      in case updatePins c pca b EEPROM_WC_BITMASK newValue of (result, pca1, b1) \<Rightarrow>
        (emit [Result result ALL_LANES] pca1, b1))"

definition ReadLMXLockDetect :: "'b I2CComms \<Rightarrow> PCA9557 \<Rightarrow> 'b \<Rightarrow> PCA9557 \<times> 'b" where
  "ReadLMXLockDetect c pca b =
     (case getPins c pca b of (result, val, pca1, b1) \<Rightarrow>
        if result = OK
        then (emit [LMXLockDetect (deviceID pca1) ((drop_bit 3 val) AND 0x01 \<noteq> 0)] pca1, b1)
        else (pca1, b1))"

text \<open>
  A run of \<^verbatim>\<open>updatePins\<close> calls, each given as its mask and its value: the object and
  the transport state after each call, in order.
\<close>

fun updatePins_run ::
  "'b I2CComms \<Rightarrow> PCA9557 \<Rightarrow> 'b \<Rightarrow> (u8 \<times> u8) list \<Rightarrow> (int \<times> PCA9557 \<times> 'b) list" where
  "updatePins_run c pca b [] = []"
| "updatePins_run c pca b ((bitmask, val) # calls) =
     (case updatePins c pca b bitmask val of (result, pca1, b1) \<Rightarrow>
        (result, pca1, b1) # updatePins_run c pca1 b1 calls)"


section \<open>Worker (\<^verbatim>\<open>BertWorker.cpp\<close>)\<close>

text \<open>
  The worker owns the comms object and one list of driver objects per chip family. Of
  the five driver classes only \<^verbatim>\<open>PCA9557\<close> is among the sources, and the worker uses
  all five in the same way: the static \<^verbatim>\<open>ping\<close>, the constructor, \<^verbatim>\<open>init()\<close> and
  \<^verbatim>\<open>delete\<close>. The model therefore takes \<^verbatim>\<open>ping\<close>, \<^verbatim>\<open>init\<close> and the destructor of each
  class as parameters, functions on the same state \<open>'b\<close> as the transport, which here
  also holds whatever the driver objects keep in their members. \<open>sim_drivers\<close> below is
  an instance in which the \<^verbatim>\<open>PCA9557\<close> entries are the functions of the previous
  section.

  A driver object in one of the worker's lists is represented by the arguments of its
  constructor.
\<close>

datatype family = GT1724 | M24M02 | LMX2594 | PCA9557 | SI5340

datatype device =
    new_GT1724 u8 u8
  | new_M24M02 u8 int
  | new_LMX2594 u8 int device
  | new_PCA9557 u8 int
  | new_SI5340 u8 int

fun family_of :: "device \<Rightarrow> family" where
  "family_of (new_GT1724 a l) = GT1724"
| "family_of (new_M24M02 a n) = M24M02"
| "family_of (new_LMX2594 a n e) = LMX2594"
| "family_of (new_PCA9557 a n) = PCA9557"
| "family_of (new_SI5340 a n) = SI5340"

record 'b drivers =
  drv_ping :: "family \<Rightarrow> 'b \<Rightarrow> u8 \<Rightarrow> bool \<times> 'b"
  drv_init :: "device \<Rightarrow> 'b \<Rightarrow> int \<times> 'b"
  drv_delete :: "device \<Rightarrow> 'b \<Rightarrow> 'b"

text \<open>
  What the worker does that can be seen from outside is recorded in order in a trace:
  the signals it emits, and (to state in which order things happen) the calls of
  \<^verbatim>\<open>init()\<close> with the result each returned, of \<^verbatim>\<open>delete\<close>, and of \<^verbatim>\<open>open\<close> and
  \<^verbatim>\<open>close\<close> on the comms object.
\<close>

text \<open>
  The message of a failed \<^verbatim>\<open>open\<close> is built with
  \<^verbatim>\<open>QString("...%1 (%2)").arg(port).arg(result)\<close> and emitted with a second argument.
  The model does not carry out the substitution of the place markers, which is Qt's:
  the event keeps the pattern and the arguments of the \<^verbatim>\<open>arg\<close> calls in order.
\<close>

datatype qarg = QString string | QInt int

datatype event =
    WorkerShowMessage string
  | WorkerShowMessage2 string "qarg list" bool
  | StatusConnect bool
  | WorkerResult int
  | GT1724Added device int
  | M24M02Added device int
  | LMX2594Added device int
  | PCA9557Added device int
  | SI5340Added device int
  | Call_init device int
  | Call_delete device
  | Call_open string int
  | Call_close

record 'b BertWorker =
  flagStop :: bool
  flagWorkerReady :: bool
  comms :: 'b
  gt1724Set :: "device list"
  lmxClockSet :: "device list"
  pca9557Set :: "device list"
  m24m02Set :: "device list"
  si5340Set :: "device list"
  trace :: "event list"

text \<open>
  The address tables of \<^verbatim>\<open>globals.cpp\<close>, as compiled when neither
  \<^verbatim>\<open>I2C_ADDRESS_TEST\<close> nor \<^verbatim>\<open>I2C_ADDRESS_PIXIE\<close> is defined (both definitions are
  commented out in the file).
\<close>

definition I2C_ADDRESSES_GT1724 :: "u8 list" where "I2C_ADDRESSES_GT1724 = [0x12, 0x14, 0x16, 0x10]"
definition I2C_ADDRESSES_LMX2594 :: "u8 list" where "I2C_ADDRESSES_LMX2594 = [0x28, 0x2C]"
definition I2C_ADDRESSES_PCA9557 :: "u8 list" where "I2C_ADDRESSES_PCA9557 = [0x1C, 0x18]"
definition I2C_ADDRESSES_M24M02 :: "u8 list" where "I2C_ADDRESSES_M24M02 = [0x50, 0x54]"
definition I2C_ADDRESSES_SI5340 :: "u8 list" where "I2C_ADDRESSES_SI5340 = [0x76, 0x72]"

definition emitw :: "event list \<Rightarrow> 'b BertWorker \<Rightarrow> 'b BertWorker" where
  "emitw evs w = w\<lparr>trace := trace w @ evs\<rparr>"

text \<open>
  One discovery loop of \<^verbatim>\<open>findComponents\<close>: for each address of the table, in order,
  call the family's \<^verbatim>\<open>ping\<close>; on \<^verbatim>\<open>true\<close> construct the object from the address and
  the counter, append it to the family's list, emit the \<^verbatim>\<open>...Added\<close> signal and advance
  the counter (by 4 for the lane offset of the \<^verbatim>\<open>GT1724\<close>, by 1 for a device ID).
\<close>

fun probe ::
  "'b drivers \<Rightarrow> family \<Rightarrow> (u8 \<Rightarrow> int \<Rightarrow> device) \<Rightarrow> (device \<Rightarrow> int \<Rightarrow> event) \<Rightarrow> int
     \<Rightarrow> u8 list \<Rightarrow> int \<Rightarrow> 'b \<Rightarrow> device list \<Rightarrow> event list \<Rightarrow> 'b \<times> device list \<times> event list" where
  "probe d fam mk added step [] n b devs tr = (b, devs, tr)"
| "probe d fam mk added step (address # rest) n b devs tr =
     (case drv_ping d fam b address of (found, b1) \<Rightarrow>
        if found
        then probe d fam mk added step rest (n + step) b1
                   (devs @ [mk address n]) (tr @ [added (mk address n) n])
        else probe d fam mk added step rest n b1 devs tr)"

definition findComponents :: "'b drivers \<Rightarrow> 'b BertWorker \<Rightarrow> int \<times> 'b BertWorker" where
  "findComponents d w =
     (case probe d GT1724 (\<lambda>address laneOffset. new_GT1724 address (word_of_int laneOffset))
                 GT1724Added 4 I2C_ADDRESSES_GT1724 0 (comms w) (gt1724Set w) (trace w)
      of (b1, gts, tr1) \<Rightarrow>
      let w1 = w\<lparr>comms := b1, gt1724Set := gts, trace := tr1\<rparr> in
      if length (gt1724Set w1) = 0
      then (MISSING_GT1724, emitw [WorkerShowMessage ''Core module not found!''] w1)
      else
      case probe d M24M02 new_M24M02 M24M02Added 1 I2C_ADDRESSES_M24M02 0
                 (comms w1) (m24m02Set w1) (trace w1)
      of (b2, m24s, tr2) \<Rightarrow>
      let w2 = w1\<lparr>comms := b2, m24m02Set := m24s, trace := tr2\<rparr> in
      if length (m24m02Set w2) = 0
      then (MISSING_EEPROM, emitw [WorkerShowMessage ''Data EEPROM not found!''] w2)
      else
      case probe d LMX2594 (\<lambda>address deviceID. new_LMX2594 address deviceID (m24m02Set w2 ! 0))
                 LMX2594Added 1 I2C_ADDRESSES_LMX2594 0 (comms w2) (lmxClockSet w2) (trace w2)
      of (b3, lmxs, tr3) \<Rightarrow>
      let w3 = w2\<lparr>comms := b3, lmxClockSet := lmxs, trace := tr3\<rparr> in
      if length (lmxClockSet w3) = 0
      then (MISSING_LMX, emitw [WorkerShowMessage ''Clock synthesizer module not found!''] w3)
      else
      case probe d PCA9557 new_PCA9557 PCA9557Added 1 I2C_ADDRESSES_PCA9557 0
                 (comms w3) (pca9557Set w3) (trace w3)
      of (b4, pcas, tr4) \<Rightarrow>
      let w4 = w3\<lparr>comms := b4, pca9557Set := pcas, trace := tr4\<rparr> in
      if length (pca9557Set w4) = 0
      then (MISSING_PCA, emitw [WorkerShowMessage ''IO controller module not found!''] w4)
      else
      case probe d SI5340 new_SI5340 SI5340Added 1 I2C_ADDRESSES_SI5340 0
                 (comms w4) (si5340Set w4) (trace w4)
      of (b5, sis, tr5) \<Rightarrow>
      (OK, w4\<lparr>comms := b5, si5340Set := sis, trace := tr5\<rparr>))"

text \<open>
  One initialisation loop of \<^verbatim>\<open>initComponents\<close>: call \<^verbatim>\<open>init()\<close> on each object of
  the list in order; a result other than \<^verbatim>\<open>globals::OK\<close> emits the loop's message and
  is returned at once from \<^verbatim>\<open>initComponents\<close>. The loop reports \<open>OK\<close> when it has run
  through.
\<close>

fun init_each ::
  "'b drivers \<Rightarrow> string \<Rightarrow> device list \<Rightarrow> 'b \<Rightarrow> event list \<Rightarrow> int \<times> 'b \<times> event list" where
  "init_each d msg [] b tr = (OK, b, tr)"
| "init_each d msg (dev # rest) b tr =
     (case drv_init d dev b of (result, b1) \<Rightarrow>
        if result \<noteq> OK
        then (result, b1, tr @ [Call_init dev result, WorkerShowMessage msg])
        else init_each d msg rest b1 (tr @ [Call_init dev result]))"

definition initComponents :: "'b drivers \<Rightarrow> 'b BertWorker \<Rightarrow> int \<times> 'b BertWorker" where
  "initComponents d w =
     (case init_each d ''Error configuring system!'' (si5340Set w) (comms w) (trace w)
      of (result, b1, tr1) \<Rightarrow>
      if result \<noteq> OK then (result, w\<lparr>comms := b1, trace := tr1\<rparr>)
      else
      case init_each d ''Error configuring system!'' (m24m02Set w) b1 tr1
      of (result, b2, tr2) \<Rightarrow>
      if result \<noteq> OK then (result, w\<lparr>comms := b2, trace := tr2\<rparr>)
      else
      case init_each d ''Frequency synthesizer set up error!'' (lmxClockSet w) b2 tr2
      of (result, b3, tr3) \<Rightarrow>
      if result \<noteq> OK then (result, w\<lparr>comms := b3, trace := tr3\<rparr>)
      else
      case init_each d ''IO Controller set up error!'' (pca9557Set w) b3 tr3
      of (result, b4, tr4) \<Rightarrow>
      if result \<noteq> OK then (result, w\<lparr>comms := b4, trace := tr4\<rparr>)
      else
      case init_each d ''Error configuring system!'' (gt1724Set w) b4 tr4
      of (result, b5, tr5) \<Rightarrow>
      if result \<noteq> OK then (result, w\<lparr>comms := b5, trace := tr5\<rparr>)
      else (OK, w\<lparr>comms := b5, trace := tr5\<rparr>))"

text \<open>
  One clean-up loop of \<^verbatim>\<open>shutdownComponents\<close>: while the list is not empty, delete
  its last object and remove it from the list.
\<close>

function delete_all ::
  "'b drivers \<Rightarrow> device list \<Rightarrow> 'b \<Rightarrow> event list \<Rightarrow> device list \<times> 'b \<times> event list" where
  "delete_all d devs b tr =
     (if length devs > 0
      then delete_all d (butlast devs) (drv_delete d (last devs) b) (tr @ [Call_delete (last devs)])
      else (devs, b, tr))"
  by pat_completeness auto
termination
  by (relation "measure (\<lambda>(d, devs, b, tr). length devs)") auto

declare delete_all.simps [simp del]

definition shutdownComponents :: "'b drivers \<Rightarrow> 'b BertWorker \<Rightarrow> 'b BertWorker" where
  "shutdownComponents d w =
     (case delete_all d (gt1724Set w) (comms w) (trace w) of (gts, b1, tr1) \<Rightarrow>
      case delete_all d (lmxClockSet w) b1 tr1 of (lmxs, b2, tr2) \<Rightarrow>
      case delete_all d (pca9557Set w) b2 tr2 of (pcas, b3, tr3) \<Rightarrow>
      case delete_all d (m24m02Set w) b3 tr3 of (m24s, b4, tr4) \<Rightarrow>
      case delete_all d (si5340Set w) b4 tr4 of (sis, b5, tr5) \<Rightarrow>
        w\<lparr>comms := b5, gt1724Set := gts, lmxClockSet := lmxs, pca9557Set := pcas,
          m24m02Set := m24s, si5340Set := sis, trace := tr5\<rparr>)"

text \<open>The public slots. Each returns at once while the worker thread is not ready.\<close>

definition CommsDisconnect :: "'b I2CComms \<Rightarrow> 'b drivers \<Rightarrow> 'b BertWorker \<Rightarrow> 'b BertWorker" where
  "CommsDisconnect c d w =
     (if \<not> flagWorkerReady w then w
      else
        let w1 = shutdownComponents d w;
            w2 = (if portIsOpen c (comms w1)
                  then w1\<lparr>comms := comms_close c (comms w1), trace := trace w1 @ [Call_close]\<rparr>
                  else w1)
        in emitw [WorkerResult OK, WorkerShowMessage ''Disconnected.'', StatusConnect False] w2)"

definition CommsConnect ::
  "'b I2CComms \<Rightarrow> 'b drivers \<Rightarrow> 'b BertWorker \<Rightarrow> string \<Rightarrow> 'b BertWorker" where
  "CommsConnect c d w port =
     (if \<not> flagWorkerReady w then w
      else if portIsOpen c (comms w)
      then emitw [WorkerShowMessage ''Connected.'', StatusConnect True] w
      else case comms_open c (comms w) port of (result, b1) \<Rightarrow>
        let w1 = w\<lparr>comms := b1, trace := trace w @ [Call_open port result]\<rparr> in
        if result \<noteq> OK
        then emitw [WorkerResult result, StatusConnect False,
                    WorkerShowMessage2 ''Couldn't connect to instrument on %1 (%2)''
                                       [QString port, QInt result] False] w1
        else
          case findComponents d
                 (emitw [WorkerShowMessage ''Comms Open. Checking system components...''] w1)
          of (result, w2) \<Rightarrow>
            if result = OK
            then emitw [WorkerShowMessage ''Connected.'', StatusConnect True] w2
            else if result = MISSING_LMX_DEFS \<or> result = MISSING_GT1724
            then emitw [WorkerShowMessage ''Connect FAILED: Error setting up system components!'']
                       (CommsDisconnect c d w2)
            else emitw [StatusConnect True] w2)"

definition InitComponents :: "'b drivers \<Rightarrow> 'b BertWorker \<Rightarrow> 'b BertWorker" where
  "InitComponents d w =
     (if \<not> flagWorkerReady w then w
      else
        case initComponents d
               (emitw [WorkerShowMessage ''Comms Open. Initializing system components...''] w)
        of (result, w1) \<Rightarrow>
          emitw [WorkerResult result, WorkerShowMessage ''Ready.''] w1)"


section \<open>A transport and a set of drivers to run the model on\<close>

text \<open>
  Modelled from the spec: the class \<^verbatim>\<open>I2CComms\<close> and the driver classes
  \<^verbatim>\<open>GT1724\<close>, \<^verbatim>\<open>M24M02\<close>, \<^verbatim>\<open>LMX2594\<close> and \<^verbatim>\<open>SI5340\<close> are missing from the
  sources. The general theorems below hold for every transport and every set of
  drivers; to run the model on concrete inputs this section gives one of each, after
  the transport contract of the specification: \<^verbatim>\<open>open\<close> fails with a busy error when
  the port is already open, \<^verbatim>\<open>close\<close> releases the port, and the byte operations fail
  with the not-connected error while the port is closed and with a transport error when
  the underlying operation does not complete.

  The simulated bus holds the register contents of the chips, the list of addresses
  that acknowledge, a schedule with the outcome of the coming transport operations
  (once it is used up every operation completes), and a log of the operations that
  reached the bus. An operation that does not complete leaves the registers as they
  are.
\<close>

datatype bus_op =
    Op_open string
  | Op_ping u8
  | Op_read u8 pca_register
  | Op_write u8 pca_register u8

record sim_bus =
  sim_port_open :: bool
  sim_acks :: "u8 list"
  sim_regs :: "u8 \<Rightarrow> pca_register \<Rightarrow> u8"
  sim_faults :: "int list"
  sim_log :: "bus_op list"
  sim_objs :: "u8 \<Rightarrow> PCA9557 option"

definition sim_next :: "bus_op \<Rightarrow> sim_bus \<Rightarrow> int \<times> sim_bus" where
  "sim_next bop b =
     (case sim_faults b of
        [] \<Rightarrow> (OK, b\<lparr>sim_log := sim_log b @ [bop]\<rparr>)
      | r # rs \<Rightarrow> (r, b\<lparr>sim_faults := rs, sim_log := sim_log b @ [bop]\<rparr>))"

definition sim_open :: "sim_bus \<Rightarrow> string \<Rightarrow> int \<times> sim_bus" where
  "sim_open b port =
     (if sim_port_open b then (BUSY_ERROR, b)
      else case sim_next (Op_open port) b of (r, b1) \<Rightarrow>
        if r \<noteq> OK then (r, b1) else (OK, b1\<lparr>sim_port_open := True\<rparr>))"

definition sim_close :: "sim_bus \<Rightarrow> sim_bus" where
  "sim_close b = b\<lparr>sim_port_open := False\<rparr>"

definition sim_pingAddress :: "sim_bus \<Rightarrow> u8 \<Rightarrow> int \<times> sim_bus" where
  "sim_pingAddress b a =
     (if \<not> sim_port_open b then (NOT_CONNECTED, b)
      else case sim_next (Op_ping a) b of (r, b1) \<Rightarrow>
        if r \<noteq> OK then (r, b1)
        else if a \<in> set (sim_acks b1) then (OK, b1) else (DEVICE_NOT_FOUND, b1))"

definition sim_read8 :: "sim_bus \<Rightarrow> u8 \<Rightarrow> pca_register \<Rightarrow> u8 \<Rightarrow> int \<times> u8 \<times> sim_bus" where
  "sim_read8 b a reg buf =
     (if \<not> sim_port_open b then (NOT_CONNECTED, buf, b)
      else case sim_next (Op_read a reg) b of (r, b1) \<Rightarrow>
        if r \<noteq> OK then (r, buf, b1) else (OK, sim_regs b1 a reg, b1))"

definition sim_write8 :: "sim_bus \<Rightarrow> u8 \<Rightarrow> pca_register \<Rightarrow> u8 \<Rightarrow> int \<times> sim_bus" where
  "sim_write8 b a reg v =
     (if \<not> sim_port_open b then (NOT_CONNECTED, b)
      else case sim_next (Op_write a reg v) b of (r, b1) \<Rightarrow>
        if r \<noteq> OK then (r, b1)
        else (OK, b1\<lparr>sim_regs := (sim_regs b1)(a := (sim_regs b1 a)(reg := v))\<rparr>))"

definition sim_comms :: "sim_bus I2CComms" where
  "sim_comms =
     \<lparr> portIsOpen = sim_port_open, comms_open = sim_open, comms_close = sim_close,
       pingAddress = sim_pingAddress, read8 = sim_read8, write8 = sim_write8 \<rparr>"

text \<open>
  The drivers to go with it. The \<^verbatim>\<open>PCA9557\<close> entries are the driver of this
  repository: \<open>PCA9557_ping\<close>, and \<open>PCA9557_init\<close> run on the object constructed for the
  address, which is kept in \<open>sim_objs\<close>. For the other families \<^verbatim>\<open>ping\<close> reports
  whether the address acknowledges and \<^verbatim>\<open>init()\<close> returns the result of one more
  address ping.
\<close>

definition sim_ping :: "family \<Rightarrow> sim_bus \<Rightarrow> u8 \<Rightarrow> bool \<times> sim_bus" where
  "sim_ping fam b a =
     (if fam = PCA9557 then PCA9557_ping sim_comms b a
      else case sim_pingAddress b a of (r, b1) \<Rightarrow> (r = OK, b1))"

fun sim_init :: "device \<Rightarrow> sim_bus \<Rightarrow> int \<times> sim_bus" where
  "sim_init (new_PCA9557 a n) b =
     (case PCA9557_init sim_comms
             \<lparr> i2cAddress = a, deviceID = n, regInput = 0, regOutput = 0, regPolarity = 0,
               regConfig = 0, emitted = [] \<rparr> b
      of (r, pca, b1) \<Rightarrow> (r, b1\<lparr>sim_objs := (sim_objs b1)(a \<mapsto> pca)\<rparr>))"
| "sim_init (new_GT1724 a l) b = sim_pingAddress b a"
| "sim_init (new_M24M02 a n) b = sim_pingAddress b a"
| "sim_init (new_LMX2594 a n e) b = sim_pingAddress b a"
| "sim_init (new_SI5340 a n) b = sim_pingAddress b a"

fun sim_delete :: "device \<Rightarrow> sim_bus \<Rightarrow> sim_bus" where
  "sim_delete (new_PCA9557 a n) b = b\<lparr>sim_objs := (sim_objs b)(a := None)\<rparr>"
| "sim_delete dev b = b"

definition sim_drivers :: "sim_bus drivers" where
  "sim_drivers = \<lparr> drv_ping = sim_ping, drv_init = sim_init, drv_delete = sim_delete \<rparr>"

text \<open>
  A bus with the port closed, nothing scheduled to fail, all registers 0 and the given
  addresses acknowledging; and a worker whose thread is ready and that holds no device.
\<close>

definition sim_bus0 :: "u8 list \<Rightarrow> sim_bus" where
  "sim_bus0 acks =
     \<lparr> sim_port_open = False, sim_acks = acks, sim_regs = (\<lambda>a reg. 0), sim_faults = [],
       sim_log = [], sim_objs = Map.empty \<rparr>"

definition worker0 :: "'b \<Rightarrow> 'b BertWorker" where
  "worker0 b =
     \<lparr> flagStop = False, flagWorkerReady = True, comms = b, gt1724Set = [], lmxClockSet = [],
       pca9557Set = [], m24m02Set = [], si5340Set = [], trace = [] \<rparr>"


text \<open>
  Inputs for the driver: an object on address \<^verbatim>\<open>0x1C\<close> with all members 0; a bus
  with the port open; one on which the first transport operation fails; one on which
  the fifth does (in \<^verbatim>\<open>ping\<close>, the write that restores the register); and one on which
  the fourth does (in \<^verbatim>\<open>ping\<close>, the read of the test value).
\<close>

definition sim_pca0 :: PCA9557 where
  "sim_pca0 =
     \<lparr> i2cAddress = 0x1C, deviceID = 0, regInput = 0, regOutput = 0, regPolarity = 0,
       regConfig = 0, emitted = [] \<rparr>"

definition bus_open :: sim_bus where
  "bus_open = (sim_bus0 [0x1C])\<lparr>sim_port_open := True\<rparr>"

definition bus_failing :: sim_bus where
  "bus_failing = bus_open\<lparr>sim_faults := [WRITE_ERROR]\<rparr>"

definition bus_restore_fails :: sim_bus where
  "bus_restore_fails = bus_open\<lparr>sim_faults := [OK, OK, OK, OK, WRITE_ERROR]\<rparr>"

definition bus_readback_fails :: sim_bus where
  "bus_readback_fails = bus_open\<lparr>sim_faults := [OK, OK, OK, READ_TIMEOUT]\<rparr>"

text \<open>
  The object and the transport state in which call number \<open>k\<close> (counted from 0) of a
  run of \<^verbatim>\<open>updatePins\<close> calls starts: those the previous call left.
\<close>

definition state_before ::
  "'b I2CComms \<Rightarrow> PCA9557 \<Rightarrow> 'b \<Rightarrow> (u8 \<times> u8) list \<Rightarrow> nat \<Rightarrow> PCA9557 \<times> 'b" where
  "state_before c pca b calls k =
     (if k = 0 then (pca, b) else snd (updatePins_run c pca b calls ! (k - 1)))"


section \<open>Reading a trace\<close>

text \<open>
  The calls of \<^verbatim>\<open>init()\<close> recorded in a trace, each with the result it returned; the
  devices deleted; the events that belong to a teardown; the connection status
  signals.
\<close>

fun init_call :: "event \<Rightarrow> (device \<times> int) list" where
  "init_call (Call_init dev r) = [(dev, r)]"
| "init_call e = []"

definition init_calls :: "event list \<Rightarrow> (device \<times> int) list" where
  "init_calls tr = concat (map init_call tr)"

fun deleted_device :: "event \<Rightarrow> device list" where
  "deleted_device (Call_delete dev) = [dev]"
| "deleted_device e = []"

definition deleted :: "event list \<Rightarrow> device list" where
  "deleted tr = concat (map deleted_device tr)"

definition is_teardown :: "event \<Rightarrow> bool" where
  "is_teardown e = (case e of Call_delete dev \<Rightarrow> True | Call_close \<Rightarrow> True | _ \<Rightarrow> False)"

definition is_StatusConnect :: "event \<Rightarrow> bool" where
  "is_StatusConnect e = (case e of StatusConnect x \<Rightarrow> True | _ \<Rightarrow> False)"

text \<open>The events a worker has added to its trace since an earlier state.\<close>

definition since :: "'b BertWorker \<Rightarrow> 'b BertWorker \<Rightarrow> event list" where
  "since w w' = drop (length (trace w)) (trace w')"

definition no_devices :: "'b BertWorker \<Rightarrow> bool" where
  "no_devices w \<longleftrightarrow>
     gt1724Set w = [] \<and> lmxClockSet w = [] \<and> pca9557Set w = [] \<and> m24m02Set w = []
     \<and> si5340Set w = []"

definition same_devices :: "'b BertWorker \<Rightarrow> 'b BertWorker \<Rightarrow> bool" where
  "same_devices w w' \<longleftrightarrow>
     gt1724Set w' = gt1724Set w \<and> lmxClockSet w' = lmxClockSet w
     \<and> pca9557Set w' = pca9557Set w \<and> m24m02Set w' = m24m02Set w
     \<and> si5340Set w' = si5340Set w"

text \<open>
  The state in which \<^verbatim>\<open>CommsConnect\<close> calls \<^verbatim>\<open>findComponents\<close>, once \<^verbatim>\<open>open\<close> has
  succeeded and left the comms object as \<open>b1\<close>.
\<close>

definition opened :: "'b BertWorker \<Rightarrow> string \<Rightarrow> 'b \<Rightarrow> 'b BertWorker" where
  "opened w port b1 =
     emitw [WorkerShowMessage ''Comms Open. Checking system components...'']
       (w\<lparr>comms := b1, trace := trace w @ [Call_open port OK]\<rparr>)"

text \<open>
  The five loops of \<^verbatim>\<open>initComponents\<close> as one run over a list of loops, each with its
  message and its devices, and what a run of \<^verbatim>\<open>init()\<close> calls over a list of devices
  may leave in the trace: a call with result \<open>OK\<close> for every device, or such calls for
  the devices before some device and a last call, for that device, with the result
  returned.
\<close>

fun init_seq ::
  "'b drivers \<Rightarrow> (string \<times> device list) list \<Rightarrow> 'b \<Rightarrow> event list \<Rightarrow> int \<times> 'b \<times> event list" where
  "init_seq d [] b tr = (OK, b, tr)"
| "init_seq d ((msg, devs) # loops) b tr =
     (case init_each d msg devs b tr of (result, b1, tr1) \<Rightarrow>
        if result \<noteq> OK then (result, b1, tr1) else init_seq d loops b1 tr1)"

definition init_outcome :: "int \<Rightarrow> device list \<Rightarrow> event list \<Rightarrow> bool" where
  "init_outcome result devs evs \<longleftrightarrow>
     \<not> (\<exists>e \<in> set evs. is_teardown e) \<and>
     ((result = OK \<and> init_calls evs = map (\<lambda>dev. (dev, OK)) devs)
      \<or> (result \<noteq> OK \<and> (\<exists>pre dev post. devs = pre @ dev # post
            \<and> init_calls evs = map (\<lambda>dev. (dev, OK)) pre @ [(dev, result)])))"

text \<open>
  The teardown order in the words of the specification: BERT core first, then I/O
  expander, then clock synthesizer, then EEPROM, then reference clock.
\<close>

fun teardown_rank_spec :: "family \<Rightarrow> nat" where
  "teardown_rank_spec GT1724 = 0"
| "teardown_rank_spec PCA9557 = 1"
| "teardown_rank_spec LMX2594 = 2"
| "teardown_rank_spec M24M02 = 3"
| "teardown_rank_spec SI5340 = 4"

text \<open>
  Inputs for the worker: a single board on which two \<^verbatim>\<open>GT1724\<close>, the EEPROM, the clock
  synthesizer and the I/O expander acknowledge; the worker after connecting to it; and
  that worker with the fourth transport operation to come scheduled to fail (during
  \<^verbatim>\<open>initComponents\<close> that is the second register write of the I/O expander's
  \<^verbatim>\<open>init()\<close>).
\<close>

definition board1 :: sim_bus where
  "board1 = sim_bus0 [0x12, 0x14, 0x50, 0x28, 0x1C]"

definition worker_connected :: "sim_bus BertWorker" where
  "worker_connected = CommsConnect sim_comms sim_drivers (worker0 board1) ''COM1''"

definition worker_init_fault :: "sim_bus BertWorker" where
  "worker_init_fault =
     worker_connected\<lparr>comms := (comms worker_connected)\<lparr>sim_faults := [OK, OK, OK, WRITE_ERROR]\<rparr>\<rparr>"


section \<open>Facts about the arithmetic\<close>

lemmas status_defs =
  OK_def NOT_CONNECTED_def WRITE_ERROR_def READ_TIMEOUT_def BUSY_ERROR_def
  DEVICE_NOT_FOUND_def MISSING_GT1724_def
  MISSING_LMX_def MISSING_LMX_DEFS_def MISSING_PCA_def MISSING_EEPROM_def ALL_LANES_def

lemma cpp_div_nonneg: "0 \<le> a \<Longrightarrow> 0 < b \<Longrightarrow> cpp_div a b = a div b"
  by (simp add: cpp_div_def)

lemma cpp_mod_nonneg: "0 \<le> a \<Longrightarrow> 0 < b \<Longrightarrow> cpp_mod a b = a mod b"
  by (simp add: cpp_mod_def cpp_div_nonneg minus_mult_div_eq_mod)

lemma cpp_mod_zero_iff: "0 < b \<Longrightarrow> cpp_mod a b = 0 \<longleftrightarrow> a mod b = 0"
proof (cases "0 \<le> a")
  case True
  assume "0 < b"
  with True show ?thesis by (simp add: cpp_mod_nonneg)
next
  case False
  assume b: "0 < b"
  have eq: "b * ((- a) div b) + (- a) mod b = - a"
    by (rule mult_div_mod_eq)
  from False b have "cpp_mod a b = a + b * ((- a) div b)"
    by (simp add: cpp_mod_def cpp_div_def)
  with eq have "cpp_mod a b = - ((- a) mod b)"
    by linarith
  moreover have "(- a) mod b = 0 \<longleftrightarrow> a mod b = 0"
    by (metis dvd_minus_iff mod_eq_0_iff_dvd)
  ultimately show ?thesis by simp
qed

lemma dec_nat_digit: "n < 10 \<Longrightarrow> dec_nat n = [''0123456789'' ! n]"
  by (simp add: dec_nat.simps)

lemma dec_int_1: "dec_int 1 = ''1''"
  by (simp add: dec_int_def dec_nat_digit)

lemma dec_int_2: "dec_int 2 = ''2''"
  by (simp add: dec_int_def dec_nat_digit)

lemma wrap32_id: "- 2147483648 \<le> x \<Longrightarrow> x < 2147483648 \<Longrightarrow> wrap32 x = x"
  by (simp add: wrap32_def)

lemma wrap32_range: "- 2147483648 \<le> wrap32 x \<and> wrap32 x < 2147483648"
  by (simp add: wrap32_def)


section \<open>Theorems: channel mapper\<close>

text \<open>
  Claim C6, as the code has it. For every logical channel number \<open>c \<ge> 1\<close> (a 32-bit
  \<^verbatim>\<open>int\<close>, so below \<open>2 ^ 31 = 2147483648\<close>) the constructor yields core index
  \<open>\<lfloor>(c - 1) / 2\<rfloor>\<close> and board index \<open>\<lfloor>(c - 1) / 4\<rfloor>\<close>: the divisions of the code
  truncate, and truncation is the floor on a dividend that is not negative. For
  \<open>c \<le> 2 ^ 30 = 1073741824\<close> it also yields pattern generator lane \<open>(c - 1) * 2\<close>,
  error detector lane and eye scan lane \<open>c * 2 - 1\<close>, and temperature lane
  \<open>(c - 1) * 2\<close>.
\<close>

theorem channel_mapper_indices:
  assumes "1 \<le> c" and "c < 2147483648"
  shows "core (new_BertChannel c) = (c - 1) div 2
       \<and> board (new_BertChannel c) = (c - 1) div 4
       \<and> (c \<le> 1073741824 \<longrightarrow>
            pgLane (new_BertChannel c) = (c - 1) * 2
          \<and> edLane (new_BertChannel c) = c * 2 - 1
          \<and> esLane (new_BertChannel c) = c * 2 - 1
          \<and> ctLane (new_BertChannel c) = (c - 1) * 2)"
proof -
  from assms have c1: "wrap32 (c - 1) = c - 1"
    by (simp add: wrap32_id)
  have lanes: "wrap32 ((c - 1) * 2) = (c - 1) * 2 \<and> wrap32 (wrap32 (c * 2) - 1) = c * 2 - 1"
    if le: "c \<le> 1073741824"
  proof (cases "c = 1073741824")
    case True
    then show ?thesis by (simp add: wrap32_def)
  next
    case False
    with le assms have "wrap32 (c * 2) = c * 2" by (simp add: wrap32_id)
    with le assms False show ?thesis by (simp add: wrap32_id)
  qed
  from assms c1 have "core (new_BertChannel c) = (c - 1) div 2"
      "board (new_BertChannel c) = (c - 1) div 4"
    by (simp_all add: new_BertChannel_def Let_def cpp_div_nonneg)
  moreover from lanes c1 have "c \<le> 1073741824 \<longrightarrow>
            pgLane (new_BertChannel c) = (c - 1) * 2
          \<and> edLane (new_BertChannel c) = c * 2 - 1
          \<and> esLane (new_BertChannel c) = c * 2 - 1
          \<and> ctLane (new_BertChannel c) = (c - 1) * 2"
    by (simp add: new_BertChannel_def Let_def)
  ultimately show ?thesis by blast
qed

theorem channel_mapper_indices_witness:
  "(1::int) \<le> 5 \<and> (5::int) < 2147483648 \<and> (5::int) \<le> 1073741824
   \<and> core (new_BertChannel 5) = 2 \<and> board (new_BertChannel 5) = 1
   \<and> pgLane (new_BertChannel 5) = 8 \<and> edLane (new_BertChannel 5) = 9
   \<and> esLane (new_BertChannel 5) = 9 \<and> ctLane (new_BertChannel 5) = 8"
  using channel_mapper_indices [of 5] by simp

text \<open>
  Claim C6 as the specification words it, for every \<open>c \<ge> 1\<close>, does not hold: for
  channel number \<open>2 ^ 30 + 1\<close> the products leave the 32-bit range and the lanes come
  out negative.
\<close>

theorem channel_mapper_overflow_counterexample:
  "(1::int) \<le> 1073741825
   \<and> pgLane (new_BertChannel 1073741825) = - 2147483648
   \<and> pgLane (new_BertChannel 1073741825) \<noteq> (1073741825 - 1) * 2
   \<and> edLane (new_BertChannel 1073741825) = - 2147483647
   \<and> edLane (new_BertChannel 1073741825) \<noteq> 1073741825 * 2 - 1"
  by (simp add: new_BertChannel_def Let_def wrap32_def)

text \<open>
  Claim C7, as the code has it. For every logical channel \<open>c \<ge> 1\<close> (a 32-bit
  \<^verbatim>\<open>int\<close>) a temperature read-out exists exactly when the temperature lane the
  constructor computed is a multiple of 4; its label is \<open>Master\<close> when that lane is
  below 5 and \<open>Slave\<close> otherwise, followed by the group number \<open>(core mod 2) + 1\<close>.
  Channel 3 has temperature lane 4, which is below 5: its read-out is labelled
  \<open>Master\<close>, group 2.
\<close>

theorem temperature_slot_label:
  assumes "1 \<le> c" and "c < 2147483648"
  shows "(groupTemp (new_BertChannel c) \<noteq> None \<longleftrightarrow> ctLane (new_BertChannel c) mod 4 = 0)
       \<and> (ctLane (new_BertChannel c) mod 4 = 0 \<longrightarrow>
            map_option labelText (groupTemp (new_BertChannel c)) =
              Some ((if ctLane (new_BertChannel c) < 5 then ''Master'' else ''Slave'') @ '' ''
                    @ dec_int (core (new_BertChannel c) mod 2 + 1) @ '':''))
       \<and> ctLane (new_BertChannel 3) = 4
       \<and> map_option labelText (groupTemp (new_BertChannel 3)) = Some ''Master 2:''"
proof -
  from assms have c1: "wrap32 (c - 1) = c - 1"
    by (simp add: wrap32_id)
  from assms have co: "0 \<le> cpp_div (c - 1) 2"
    by (simp add: cpp_div_nonneg)
  have "0 \<le> cpp_div (c - 1) 2 mod 2 + 1" "cpp_div (c - 1) 2 mod 2 + 1 < 2147483648"
    by (simp_all add: add_increasing2)
  then have grp: "wrap32 (cpp_div (c - 1) 2 mod 2 + 1) = cpp_div (c - 1) 2 mod 2 + 1"
    by (simp add: wrap32_id)
  have three: "cpp_div 2 2 = 1" "cpp_mod 4 4 = 0" "cpp_mod 1 2 = 1" "wrap32 2 = 2" "wrap32 4 = 4"
    by (simp_all add: cpp_mod_def cpp_div_def wrap32_def)
  have general: "groupTemp (new_BertChannel c) \<noteq> None \<longleftrightarrow> ctLane (new_BertChannel c) mod 4 = 0"
    by (simp add: new_BertChannel_def Let_def cpp_mod_zero_iff)
  moreover have "ctLane (new_BertChannel c) mod 4 = 0 \<longrightarrow>
      map_option labelText (groupTemp (new_BertChannel c)) =
        Some ((if ctLane (new_BertChannel c) < 5 then ''Master'' else ''Slave'') @ '' ''
              @ dec_int (core (new_BertChannel c) mod 2 + 1) @ '':'')"
    using co grp by (simp add: new_BertChannel_def Let_def c1 cpp_mod_zero_iff cpp_mod_nonneg)
  moreover have "ctLane (new_BertChannel 3) = 4"
    by (simp add: new_BertChannel_def Let_def three)
  moreover have "map_option labelText (groupTemp (new_BertChannel 3)) = Some ''Master 2:''"
    by (simp add: new_BertChannel_def Let_def three dec_int_2)
  ultimately show ?thesis by blast
qed

theorem temperature_slot_label_witness:
  "(1::int) \<le> 5 \<and> (5::int) < 2147483648
   \<and> groupTemp (new_BertChannel 5) \<noteq> None
   \<and> map_option labelText (groupTemp (new_BertChannel 5)) = Some ''Slave 1:''
   \<and> groupTemp (new_BertChannel 2) = None"
proof -
  have "cpp_div 4 2 = 2" "core (new_BertChannel 5) = 2" "ctLane (new_BertChannel 5) = 8"
    by (simp_all add: new_BertChannel_def Let_def cpp_div_def wrap32_def)
  moreover have "ctLane (new_BertChannel 2) = 2"
    by (simp add: new_BertChannel_def Let_def wrap32_def)
  ultimately show ?thesis
    using temperature_slot_label [of 5] temperature_slot_label [of 2]
    by (simp add: dec_int_1)
qed

text \<open>
  The instance of claim C7 as the specification words it (channel 3 labelled \<open>Slave\<close>)
  does not hold: the label of channel 3 is \<open>Master 2:\<close>.
\<close>

theorem channel3_label_counterexample:
  "ctLane (new_BertChannel 3) = 4
   \<and> 4 < (5::int)
   \<and> map_option labelText (groupTemp (new_BertChannel 3)) \<noteq> Some ''Slave 2:''
   \<and> map_option (take 5 \<circ> labelText) (groupTemp (new_BertChannel 3)) \<noteq> Some ''Slave''"
proof -
  have "cpp_div 2 2 = 1" "cpp_mod 4 4 = 0" "cpp_mod 1 2 = 1" "wrap32 2 = 2" "wrap32 4 = 4"
    by (simp_all add: cpp_mod_def cpp_div_def wrap32_def)
  then show ?thesis
    by (simp add: new_BertChannel_def Let_def dec_int_2)
qed

text \<open>
  Where the temperature lane has wrapped around, the rule is applied to the wrapped
  value: channel \<open>2 ^ 30 + 1\<close> has temperature lane \<open>- 2 ^ 31\<close> and is labelled
  \<open>Master\<close>.
\<close>

lemma overflowed_channel_label:
  "ctLane (new_BertChannel 1073741825) = - 2147483648
   \<and> map_option labelText (groupTemp (new_BertChannel 1073741825)) = Some ''Master 1:''"
  by (simp add: new_BertChannel_def Let_def wrap32_def cpp_div_def cpp_mod_def dec_int_1)


section \<open>Theorems: I/O expander driver\<close>

lemma sim_comms_simps [simp]:
  "portIsOpen sim_comms = sim_port_open" "comms_open sim_comms = sim_open"
  "comms_close sim_comms = sim_close" "pingAddress sim_comms = sim_pingAddress"
  "read8 sim_comms = sim_read8" "write8 sim_comms = sim_write8"
  by (simp_all add: sim_comms_def)

lemmas sim_defs =
  sim_bus0_def sim_pingAddress_def sim_read8_def sim_write8_def sim_next_def sim_open_def
  sim_close_def

lemmas pca_defs = updatePins_def setPins_def writePins_def emit_def

lemma updatePins_cache:
  "regOutput (fst (snd (updatePins c pca b m v))) = (regOutput pca AND NOT m) OR v"
  by (simp add: pca_defs Let_def split: prod.splits)

lemma updatePins_transport:
  "(fst (updatePins c pca b m v), snd (snd (updatePins c pca b m v))) =
     (if portIsOpen c b
      then write8 c b (i2cAddress pca) REG_OUPUT ((regOutput pca AND NOT m) OR v)
      else (NOT_CONNECTED, b))"
  by (simp add: pca_defs Let_def status_defs split: prod.splits)

lemma bits_outside_mask:
  "v AND NOT m = 0 \<Longrightarrow> ((r AND NOT m) OR v) AND NOT m = r AND NOT (m::u8)"
  by (simp add: bit.conj_disj_distrib2)

lemma length_updatePins_run: "length (updatePins_run c pca b calls) = length calls"
  by (induction calls arbitrary: pca b) (auto split: prod.splits)

lemma updatePins_run_nth:
  "k < length calls \<Longrightarrow>
   updatePins_run c pca b calls ! k =
     (case state_before c pca b calls k of (p0, b0) \<Rightarrow>
        updatePins c p0 b0 (fst (calls ! k)) (snd (calls ! k)))"
proof (induction calls arbitrary: pca b k)
  case Nil
  then show ?case by simp
next
  case (Cons call calls)
  obtain m v where call: "call = (m, v)" by (cases call)
  obtain r p1 b1 where step: "updatePins c pca b m v = (r, p1, b1)"
    by (cases "updatePins c pca b m v")
  show ?case
  proof (cases k)
    case 0
    then show ?thesis by (simp add: state_before_def call step)
  next
    case (Suc j)
    with Cons.prems have j: "j < length calls" by simp
    have "state_before c pca b (call # calls) (Suc j) = state_before c p1 b1 calls j"
      by (cases j) (simp_all add: state_before_def call step)
    with Cons.IH [OF j, of p1 b1] show ?thesis
      by (simp add: Suc call step)
  qed
qed

text \<open>
  The callers of \<^verbatim>\<open>updatePins\<close> in the driver, \<^verbatim>\<open>SelectTriggerDivide\<close> and
  \<^verbatim>\<open>SetEEPROMWriteEnable\<close>, pass values that have no bit outside the mask.
\<close>

lemma callers_values_within_mask:
  "\<forall>v \<in> set TRIGGER_DIVIDE_LOOKUP. v AND NOT TRIGGER_DIVIDE_BITMASK = 0"
  "EEPROM_WRITE_ENABLE AND NOT EEPROM_WC_BITMASK = 0"
  "EEPROM_WRITE_DISABLE AND NOT EEPROM_WC_BITMASK = 0"
  by (simp_all add: TRIGGER_DIVIDE_LOOKUP_def TRIGGER_DIVIDE_BITMASK_def EEPROM_WRITE_ENABLE_def
        EEPROM_WRITE_DISABLE_def EEPROM_WC_BITMASK_def)

text \<open>
  What one call in a run of \<^verbatim>\<open>updatePins(mask, value)\<close> calls does: it sets the
  cached output register to \<^verbatim>\<open>(cachedOutput & ~mask) | value\<close>; on the transport it
  issues one \<^verbatim>\<open>write8\<close> of that whole byte to the output register when the port is
  open, and nothing when it is closed; and when the value has no bit set outside the
  mask, the bits outside the mask are as the previous call left them.
\<close>

lemma updatePins_run_step:
  assumes "k < length calls"
  shows "case state_before c pca b calls k of (p0, b0) \<Rightarrow>
         case calls ! k of (m, v) \<Rightarrow>
         case updatePins_run c pca b calls ! k of (r, p1, b1) \<Rightarrow>
           regOutput p1 = (regOutput p0 AND NOT m) OR v
         \<and> (r, b1) = (if portIsOpen c b0
                      then write8 c b0 (i2cAddress p0) REG_OUPUT (regOutput p1)
                      else (NOT_CONNECTED, b0))
         \<and> (v AND NOT m = 0 \<longrightarrow> regOutput p1 AND NOT m = regOutput p0 AND NOT m)"
proof -
  obtain p0 b0 where before: "state_before c pca b calls k = (p0, b0)"
    by (cases "state_before c pca b calls k")
  obtain m v where call: "calls ! k = (m, v)"
    by (cases "calls ! k")
  obtain r p1 b1 where after: "updatePins_run c pca b calls ! k = (r, p1, b1)"
    by (cases "updatePins_run c pca b calls ! k")
  from assms before call after have step: "updatePins c p0 b0 m v = (r, p1, b1)"
    by (simp add: updatePins_run_nth)
  have cache: "regOutput p1 = (regOutput p0 AND NOT m) OR v"
    using updatePins_cache [of c p0 b0 m v] by (simp add: step)
  moreover have "(r, b1) = (if portIsOpen c b0
                    then write8 c b0 (i2cAddress p0) REG_OUPUT (regOutput p1)
                    else (NOT_CONNECTED, b0))"
    using updatePins_transport [of c p0 b0 m v] by (simp add: step cache)
  moreover have "v AND NOT m = 0 \<longrightarrow> regOutput p1 AND NOT m = regOutput p0 AND NOT m"
    by (simp add: cache bits_outside_mask)
  ultimately show ?thesis by (simp add: before call after)
qed

lemma updatePins_run_example:
  "(1::nat) < length [(0xC0, 0x80), (0x04, 0x04 :: u8) :: u8 \<times> u8]
   \<and> (0x04 :: u8) AND NOT 0x04 = 0
   \<and> map (\<lambda>(r, p, b). (r, regOutput p, sim_regs b 0x1C REG_OUPUT, sim_log b))
        (updatePins_run sim_comms sim_pca0 bus_open [(0xC0, 0x80), (0x04, 0x04)]) =
      [(OK, 0x80, 0x80, [Op_write 0x1C REG_OUPUT 0x80]),
       (OK, 0x84, 0x84, [Op_write 0x1C REG_OUPUT 0x80, Op_write 0x1C REG_OUPUT 0x84])]
   \<and> (0x84 :: u8) AND NOT 0x04 = 0x80 AND NOT 0x04"
  using updatePins_run_step
          [of 1 "[(0xC0, 0x80), (0x04, 0x04)]" sim_comms sim_pca0 bus_open]
  by (simp add: pca_defs sim_defs sim_pca0_def bus_open_def Let_def OK_def state_before_def)


text \<open>
  Claim C10. When the write issued by \<^verbatim>\<open>setPins\<close> or \<^verbatim>\<open>updatePins\<close> fails, the
  cached output register holds the new value all the same, and a later
  \<^verbatim>\<open>updatePins\<close> (on whatever transport state) computes its byte from that value.
\<close>

theorem failed_write_keeps_new_cache:
  "(fst (setPins c pca b v) \<noteq> OK \<longrightarrow> regOutput (fst (snd (setPins c pca b v))) = v)
 \<and> (fst (updatePins c pca b m v) \<noteq> OK \<longrightarrow>
      regOutput (fst (snd (updatePins c pca b m v))) = (regOutput pca AND NOT m) OR v
    \<and> regOutput (fst (snd (updatePins c' (fst (snd (updatePins c pca b m v))) b' m' v'))) =
        ((((regOutput pca AND NOT m) OR v) AND NOT m') OR v'))"
  by (simp add: updatePins_cache) (simp add: setPins_def writePins_def split: prod.splits)

theorem failed_write_keeps_new_cache_witness:
  "fst (setPins sim_comms sim_pca0 bus_failing 0x80) = WRITE_ERROR
 \<and> fst (updatePins sim_comms sim_pca0 bus_failing 0xC0 0x80) = WRITE_ERROR
 \<and> WRITE_ERROR \<noteq> OK
 \<and> regOutput (fst (snd (setPins sim_comms sim_pca0 bus_failing 0x80))) = 0x80
 \<and> regOutput (fst (snd (updatePins sim_comms sim_pca0 bus_failing 0xC0 0x80))) = 0x80
 \<and> sim_regs (snd (snd (updatePins sim_comms sim_pca0 bus_failing 0xC0 0x80))) 0x1C REG_OUPUT = 0x00
 \<and> regOutput (fst (snd (updatePins sim_comms
       (fst (snd (updatePins sim_comms sim_pca0 bus_failing 0xC0 0x80))) bus_open 0x04 0x04))) = 0x84"
  using failed_write_keeps_new_cache
          [of sim_comms sim_pca0 bus_failing "0x80" "0xC0" sim_comms bus_open "0x04" "0x04"]
  by (simp add: pca_defs sim_defs sim_pca0_def bus_open_def bus_failing_def Let_def status_defs)

text \<open>
  With the port closed, the operations of the driver return the not-connected code and
  leave the transport state as it is (\<^verbatim>\<open>setPins\<close> and \<^verbatim>\<open>updatePins\<close> have stored
  the new value in the cache by then). \<^verbatim>\<open>ping\<close> is the exception: it is declared
  \<^verbatim>\<open>bool\<close>, and its \<^verbatim>\<open>return globals::NOT_CONNECTED\<close> returns \<^verbatim>\<open>true\<close>.
\<close>

lemma closed_port_operations:
  assumes "\<not> portIsOpen c b"
  shows "writePins c pca b = (NOT_CONNECTED, pca, b)"
    and "setPins c pca b v = (NOT_CONNECTED, pca\<lparr>regOutput := v\<rparr>, b)"
    and "fst (updatePins c pca b m v) = NOT_CONNECTED \<and> snd (snd (updatePins c pca b m v)) = b"
    and "readPins c pca b = (NOT_CONNECTED, pca, b)"
    and "getPins c pca b = (NOT_CONNECTED, regInput pca, pca, b)"
    and "configurePins c pca b p0 p1 p2 p3 p4 p5 p6 p7 = (NOT_CONNECTED, pca, b)"
    and "fst (PCA9557_init c pca b) = NOT_CONNECTED \<and> snd (snd (PCA9557_init c pca b)) = b"
    and "PCA9557_ping c b a = (True, b)"
  using assms
  by (simp_all add: pca_defs readPins_def getPins_def configurePins_def PCA9557_init_def
        PCA9557_ping_def int_as_bool_def Let_def status_defs)

text \<open>
  Claim C8 says that every driver operation invoked while the port is not open fails
  with the not-connected error and performs no hardware access. For \<^verbatim>\<open>ping\<close> the code
  does otherwise: on a closed port it performs no hardware access, but it returns
  \<^verbatim>\<open>true\<close>, the answer that stands for a chip found on the address.
\<close>

theorem ping_closed_port_reports_found:
  "\<not> sim_port_open (sim_bus0 [])
   \<and> PCA9557_ping sim_comms (sim_bus0 []) 0x1C = (True, sim_bus0 [])"
  by (simp add: PCA9557_ping_def sim_bus0_def int_as_bool_def NOT_CONNECTED_def)

text \<open>
  Claim C5 says that \<^verbatim>\<open>ping\<close> restores the polarity inversion register whatever
  happens, and reports \<^verbatim>\<open>false\<close> when any of its steps fails. When the write that
  restores the register fails, the code reports \<^verbatim>\<open>true\<close> and the register keeps the
  test value \<^verbatim>\<open>0x55\<close>: the result of that write is never looked at.
\<close>

theorem ping_restore_write_failure:
  "sim_regs bus_restore_fails 0x1C REG_POLARITY = 0x00
   \<and> fst (PCA9557_ping sim_comms bus_restore_fails 0x1C) = True
   \<and> sim_regs (snd (PCA9557_ping sim_comms bus_restore_fails 0x1C)) 0x1C REG_POLARITY = 0x55
   \<and> sim_log (snd (PCA9557_ping sim_comms bus_restore_fails 0x1C)) =
       [Op_ping 0x1C, Op_read 0x1C REG_POLARITY, Op_write 0x1C REG_POLARITY 0x55,
        Op_read 0x1C REG_POLARITY, Op_write 0x1C REG_POLARITY 0x00]"
  by (simp add: PCA9557_ping_def bus_restore_fails_def bus_open_def sim_defs status_defs)

text \<open>
  When the read of the test value fails, \<^verbatim>\<open>ping\<close> returns \<^verbatim>\<open>false\<close> at once and
  does not attempt the restoring write: the register keeps the test value here too.
  When no transport operation fails, the register is as it was before the probe.
\<close>

lemma ping_readback_failure:
  "sim_regs bus_readback_fails 0x1C REG_POLARITY = 0x00
   \<and> fst (PCA9557_ping sim_comms bus_readback_fails 0x1C) = False
   \<and> sim_regs (snd (PCA9557_ping sim_comms bus_readback_fails 0x1C)) 0x1C REG_POLARITY = 0x55
   \<and> sim_log (snd (PCA9557_ping sim_comms bus_readback_fails 0x1C)) =
       [Op_ping 0x1C, Op_read 0x1C REG_POLARITY, Op_write 0x1C REG_POLARITY 0x55,
        Op_read 0x1C REG_POLARITY]"
  by (simp add: PCA9557_ping_def bus_readback_fails_def bus_open_def sim_defs status_defs)

lemma ping_without_faults:
  assumes "sim_port_open b" and "sim_faults b = []" and "a \<in> set (sim_acks b)"
  shows "fst (PCA9557_ping sim_comms b a) = True"
    and "sim_regs (snd (PCA9557_ping sim_comms b a)) = sim_regs b"
  using assms
  by (auto simp add: PCA9557_ping_def sim_defs status_defs fun_eq_iff)



section \<open>Theorems: worker\<close>

lemma sim_drivers_simps [simp]:
  "drv_ping sim_drivers = sim_ping" "drv_init sim_drivers = sim_init"
  "drv_delete sim_drivers = sim_delete"
  by (simp_all add: sim_drivers_def)

lemmas worker_defs =
  CommsConnect_def CommsDisconnect_def findComponents_def initComponents_def
  shutdownComponents_def InitComponents_def emitw_def worker0_def opened_def
  I2C_ADDRESSES_GT1724_def I2C_ADDRESSES_LMX2594_def I2C_ADDRESSES_PCA9557_def
  I2C_ADDRESSES_M24M02_def I2C_ADDRESSES_SI5340_def

lemmas run_defs =
  worker_defs sim_defs sim_ping_def PCA9557_ping_def PCA9557_init_def configurePins_def
  pca_defs or_if_def status_defs Let_def

lemma init_calls_append [simp]: "init_calls (xs @ ys) = init_calls xs @ init_calls ys"
  by (simp add: init_calls_def)

lemma init_calls_simps [simp]:
  "init_calls [] = []" "init_calls (e # es) = init_call e @ init_calls es"
  by (simp_all add: init_calls_def)

lemma deleted_simps [simp]:
  "deleted [] = []" "deleted (e # es) = deleted_device e @ deleted es"
  "deleted (xs @ ys) = deleted xs @ deleted ys"
  by (simp_all add: deleted_def)

lemma since_append [simp]: "trace w' = trace w @ evs \<Longrightarrow> since w w' = evs"
  by (simp add: since_def)

subsection \<open>Discovery\<close>

text \<open>
  A discovery loop appends to the family's list one object for each address that
  answered, in the order of the address table, with the counter values \<open>n\<close>,
  \<open>n + step\<close>, \<open>n + 2 * step\<close> and so on: the lists are in discovery order, device IDs
  are dense from 0 and lane offsets are successive multiples of 4.
\<close>

lemma probe_discovery_order:
  assumes "probe d fam mk added step addrs n b devs tr = (b', devs', tr')"
  shows "\<exists>found. subseq found addrs
          \<and> devs' = devs @ map (\<lambda>(i, a). mk a (n + int i * step)) (enumerate 0 found)
          \<and> tr' = tr @ map (\<lambda>(i, a). added (mk a (n + int i * step)) (n + int i * step))
                          (enumerate 0 found)"
  using assms
proof (induction addrs arbitrary: n b devs tr)
  case Nil
  then show ?case by (intro exI [of _ "[]"]) simp
next
  case (Cons a addrs)
  obtain ack b1 where p: "drv_ping d fam b a = (ack, b1)" by (cases "drv_ping d fam b a")
  show ?case
  proof (cases ack)
    case False
    with Cons.prems p have "probe d fam mk added step addrs n b1 devs tr = (b', devs', tr')"
      by simp
    from Cons.IH [OF this] obtain found where
      "subseq found addrs"
      "devs' = devs @ map (\<lambda>(i, a). mk a (n + int i * step)) (enumerate 0 found)"
      "tr' = tr @ map (\<lambda>(i, a). added (mk a (n + int i * step)) (n + int i * step))
                          (enumerate 0 found)"
      by blast
    then show ?thesis by (intro exI [of _ found]) (simp add: list_emb_Cons)
  next
    case True
    with Cons.prems p have "probe d fam mk added step addrs (n + step) b1
        (devs @ [mk a n]) (tr @ [added (mk a n) n]) = (b', devs', tr')" by simp
    from Cons.IH [OF this] obtain found where
      f: "subseq found addrs"
      "devs' = (devs @ [mk a n]) @ map (\<lambda>(i, a). mk a (n + step + int i * step)) (enumerate 0 found)"
      "tr' = (tr @ [added (mk a n) n])
               @ map (\<lambda>(i, a). added (mk a (n + step + int i * step)) (n + step + int i * step))
                          (enumerate 0 found)"
      by blast
    have shift: "n + step + int i * step = n + int (Suc i) * step" for i
      by (simp add: algebra_simps)
    show ?thesis
      using f
      by (intro exI [of _ "a # found"])
         (simp add: enumerate_Suc_eq shift o_def case_prod_beta del: of_nat_Suc)
  qed
qed

subsection \<open>Initialisation\<close>

lemma init_each_outcome:
  assumes "init_each d msg devs b tr = (result, b', tr')"
  shows "\<exists>evs. tr' = tr @ evs \<and> init_outcome result devs evs"
  using assms
proof (induction devs arbitrary: b tr)
  case Nil
  then show ?case by (simp add: init_outcome_def)
next
  case (Cons dev rest)
  obtain r b1 where step: "drv_init d dev b = (r, b1)" by (cases "drv_init d dev b")
  show ?case
  proof (cases "r = OK")
    case False
    with Cons.prems step have "result = r" "tr' = tr @ [Call_init dev r, WorkerShowMessage msg]"
      by auto
    moreover have "dev # rest = [] @ dev # rest" by simp
    ultimately show ?thesis using False
      unfolding init_outcome_def
      by (intro exI [of _ "[Call_init dev r, WorkerShowMessage msg]"])
         (auto simp: is_teardown_def intro!: exI [of _ "[]"])
  next
    case True
    with Cons.prems step
    have "init_each d msg rest b1 (tr @ [Call_init dev OK]) = (result, b', tr')"
      by simp
    from Cons.IH [OF this] obtain evs where
      evs: "tr' = (tr @ [Call_init dev OK]) @ evs" "init_outcome result rest evs"
      by blast
    have clean: "\<not> (\<exists>e \<in> set (Call_init dev OK # evs). is_teardown e)"
      using evs(2) by (simp add: init_outcome_def is_teardown_def)
    have "init_outcome result (dev # rest) (Call_init dev OK # evs)"
    proof (cases "result = OK")
      case True
      with evs(2) clean show ?thesis by (simp add: init_outcome_def)
    next
      case False
      with evs(2) obtain pre dev' post where
        f: "rest = pre @ dev' # post"
           "init_calls evs = map (\<lambda>dev. (dev, OK)) pre @ [(dev', result)]"
        unfolding init_outcome_def by blast
      then have "dev # rest = (dev # pre) @ dev' # post
          \<and> init_calls (Call_init dev OK # evs)
              = map (\<lambda>dev. (dev, OK)) (dev # pre) @ [(dev', result)]"
        by simp
      then have "\<exists>pre0 dev0 post0. dev # rest = pre0 @ dev0 # post0
          \<and> init_calls (Call_init dev OK # evs)
              = map (\<lambda>dev. (dev, OK)) pre0 @ [(dev0, result)]"
        by blast
      with clean False show ?thesis
        unfolding init_outcome_def by blast
    qed
    with evs(1) show ?thesis by simp
  qed
qed

lemma init_outcome_failed_extend:
  assumes "init_outcome result xs evs" and "result \<noteq> OK"
  shows "init_outcome result (xs @ ys) evs"
proof -
  from assms obtain pre dev post where
    "xs = pre @ dev # post" "init_calls evs = map (\<lambda>dev. (dev, OK)) pre @ [(dev, result)]"
    unfolding init_outcome_def by blast
  then have "xs @ ys = pre @ dev # (post @ ys)
      \<and> init_calls evs = map (\<lambda>dev. (dev, OK)) pre @ [(dev, result)]"
    by simp
  with assms show ?thesis
    unfolding init_outcome_def by blast
qed

lemma init_outcome_append:
  assumes "init_outcome OK xs e1" and "init_outcome result ys e2"
  shows "init_outcome result (xs @ ys) (e1 @ e2)"
proof (cases "result = OK")
  case True
  with assms show ?thesis by (auto simp: init_outcome_def)
next
  case False
  with assms(2) obtain pre dev post where
    "ys = pre @ dev # post" "init_calls e2 = map (\<lambda>dev. (dev, OK)) pre @ [(dev, result)]"
    unfolding init_outcome_def by blast
  moreover from assms(1) have "init_calls e1 = map (\<lambda>dev. (dev, OK)) xs"
    by (simp add: init_outcome_def)
  ultimately have "xs @ ys = (xs @ pre) @ dev # post
      \<and> init_calls (e1 @ e2) = map (\<lambda>dev. (dev, OK)) (xs @ pre) @ [(dev, result)]"
    by simp
  then have "\<exists>pre dev post. xs @ ys = pre @ dev # post
      \<and> init_calls (e1 @ e2) = map (\<lambda>dev. (dev, OK)) pre @ [(dev, result)]"
    by blast
  moreover from assms have "\<not> (\<exists>e \<in> set (e1 @ e2). is_teardown e)"
    by (auto simp: init_outcome_def)
  ultimately show ?thesis using False
    unfolding init_outcome_def by blast
qed

lemma init_seq_outcome:
  "init_seq d loops b tr = (result, b', tr') \<Longrightarrow>
   \<exists>evs. tr' = tr @ evs \<and> init_outcome result (concat (map snd loops)) evs"
proof (induction loops arbitrary: b tr)
  case Nil
  then show ?case by (simp add: init_outcome_def)
next
  case (Cons loop loops)
  obtain msg devs where loop: "loop = (msg, devs)" by (cases loop)
  obtain r b1 tr1 where first: "init_each d msg devs b tr = (r, b1, tr1)"
    by (cases "init_each d msg devs b tr")
  from init_each_outcome [OF first] obtain e1 where
    e1: "tr1 = tr @ e1" "init_outcome r devs e1" by blast
  show ?case
  proof (cases "r = OK")
    case False
    with Cons.prems loop first have "result = r" "tr' = tr1" by auto
    with e1 False show ?thesis
      by (auto simp: loop intro: init_outcome_failed_extend)
  next
    case True
    with Cons.prems loop first have "init_seq d loops b1 tr1 = (result, b', tr')" by simp
    from Cons.IH [OF this] obtain e2 where
      e2: "tr' = tr1 @ e2" "init_outcome result (concat (map snd loops)) e2" by blast
    from e1(2) True e2(2) have "init_outcome result (devs @ concat (map snd loops)) (e1 @ e2)"
      by (auto intro: init_outcome_append)
    with e1(1) e2(1) show ?thesis by (auto simp: loop)
  qed
qed

lemma initComponents_seq:
  "initComponents d w =
     (case init_seq d [(''Error configuring system!'', si5340Set w),
                       (''Error configuring system!'', m24m02Set w),
                       (''Frequency synthesizer set up error!'', lmxClockSet w),
                       (''IO Controller set up error!'', pca9557Set w),
                       (''Error configuring system!'', gt1724Set w)] (comms w) (trace w)
      of (result, b, tr) \<Rightarrow> (result, w\<lparr>comms := b, trace := tr\<rparr>))"
  by (simp add: initComponents_def split: prod.splits)

lemma initComponents_outcome:
  assumes "initComponents d w = (result, w')"
  shows "\<exists>b evs. w' = w\<lparr>comms := b, trace := trace w @ evs\<rparr>
          \<and> init_outcome result (si5340Set w @ m24m02Set w @ lmxClockSet w @ pca9557Set w
                                   @ gt1724Set w) evs"
proof -
  let ?loops = "[(''Error configuring system!'', si5340Set w),
                 (''Error configuring system!'', m24m02Set w),
                 (''Frequency synthesizer set up error!'', lmxClockSet w),
                 (''IO Controller set up error!'', pca9557Set w),
                 (''Error configuring system!'', gt1724Set w)]"
  obtain r b tr where run: "init_seq d ?loops (comms w) (trace w) = (r, b, tr)"
    by (cases "init_seq d ?loops (comms w) (trace w)")
  with assms have res: "result = r" "w' = w\<lparr>comms := b, trace := tr\<rparr>"
    by (simp_all add: initComponents_seq)
  from init_seq_outcome [OF run] obtain evs where
    "tr = trace w @ evs" "init_outcome r (concat (map snd ?loops)) evs" by blast
  with res show ?thesis by auto
qed

text \<open>
  Claim C2. Whenever \<^verbatim>\<open>initComponents\<close> runs over the device lists, the calls of
  \<^verbatim>\<open>init()\<close> it makes follow the list of all reference clocks, then all EEPROMs,
  then all clock synthesizers, then all I/O expanders, then all BERT cores, each family
  in discovery order. Either every device of that list is initialised with result
  \<open>OK\<close> and \<open>OK\<close> is returned, or the calls stop with the first device whose
  \<^verbatim>\<open>init()\<close> fails: the devices before it returned \<open>OK\<close>, its result is the one
  returned, and no device after it is initialised.
\<close>

theorem initComponents_order:
  assumes "initComponents d w = (result, w')"
  shows "trace w' = trace w @ since w w'
       \<and> (let devs = si5340Set w @ m24m02Set w @ lmxClockSet w @ pca9557Set w @ gt1724Set w in
            (result = OK \<and> init_calls (since w w') = map (\<lambda>dev. (dev, OK)) devs)
          \<or> (result \<noteq> OK \<and> (\<exists>pre dev post. devs = pre @ dev # post
                \<and> init_calls (since w w') = map (\<lambda>dev. (dev, OK)) pre @ [(dev, result)])))"
proof -
  from initComponents_outcome [OF assms] obtain b evs where
    w': "w' = w\<lparr>comms := b, trace := trace w @ evs\<rparr>"
    and out: "init_outcome result (si5340Set w @ m24m02Set w @ lmxClockSet w @ pca9557Set w
                                   @ gt1724Set w) evs"
    by blast
  from w' have "trace w' = trace w @ evs" by simp
  then have "since w w' = evs" by simp
  with w' out show ?thesis
    by (simp add: init_outcome_def Let_def)
qed

theorem initComponents_order_witness:
  "fst (initComponents sim_drivers worker_init_fault) = WRITE_ERROR
   \<and> WRITE_ERROR \<noteq> OK
   \<and> si5340Set worker_init_fault @ m24m02Set worker_init_fault @ lmxClockSet worker_init_fault
       @ pca9557Set worker_init_fault @ gt1724Set worker_init_fault =
     [new_M24M02 0x50 0, new_LMX2594 0x28 0 (new_M24M02 0x50 0)] @ new_PCA9557 0x1C 0
       # [new_GT1724 0x12 0, new_GT1724 0x14 4]
   \<and> init_calls (since worker_init_fault (snd (initComponents sim_drivers worker_init_fault))) =
       map (\<lambda>dev. (dev, OK)) [new_M24M02 0x50 0, new_LMX2594 0x28 0 (new_M24M02 0x50 0)]
         @ [(new_PCA9557 0x1C 0, WRITE_ERROR)]
   \<and> fst (initComponents sim_drivers worker_connected) = OK
   \<and> init_calls (since worker_connected (snd (initComponents sim_drivers worker_connected))) =
       map (\<lambda>dev. (dev, OK))
         [new_M24M02 0x50 0, new_LMX2594 0x28 0 (new_M24M02 0x50 0), new_PCA9557 0x1C 0,
          new_GT1724 0x12 0, new_GT1724 0x14 4]"
  using initComponents_order [of sim_drivers worker_init_fault
          "fst (initComponents sim_drivers worker_init_fault)"
          "snd (initComponents sim_drivers worker_init_fault)"]
        initComponents_order [of sim_drivers worker_connected
          "fst (initComponents sim_drivers worker_connected)"
          "snd (initComponents sim_drivers worker_connected)"]
  by (simp add: worker_init_fault_def worker_connected_def board1_def run_defs since_def)


subsection \<open>Teardown\<close>

lemma delete_all_eq:
  "delete_all d devs b tr =
     ([], fold (drv_delete d) (rev devs) b, tr @ map Call_delete (rev devs))"
proof (induction devs arbitrary: b tr rule: rev_induct)
  case Nil
  show ?case by (simp add: delete_all.simps)
next
  case (snoc x xs)
  have "delete_all d (xs @ [x]) b tr = delete_all d xs (drv_delete d x b) (tr @ [Call_delete x])"
    by (subst delete_all.simps) simp
  with snoc show ?case by simp
qed

lemma shutdownComponents_eq:
  "shutdownComponents d w =
     w\<lparr>comms := fold (drv_delete d)
                  (rev (gt1724Set w) @ rev (lmxClockSet w) @ rev (pca9557Set w)
                   @ rev (m24m02Set w) @ rev (si5340Set w)) (comms w),
       gt1724Set := [], lmxClockSet := [], pca9557Set := [], m24m02Set := [], si5340Set := [],
       trace := trace w @ map Call_delete
                  (rev (gt1724Set w) @ rev (lmxClockSet w) @ rev (pca9557Set w)
                   @ rev (m24m02Set w) @ rev (si5340Set w))\<rparr>"
  by (simp add: shutdownComponents_def delete_all_eq)

lemma CommsDisconnect_trace:
  assumes "flagWorkerReady w"
  shows "trace (CommsDisconnect c d w) =
           trace w
           @ map Call_delete (rev (gt1724Set w) @ rev (lmxClockSet w) @ rev (pca9557Set w)
                              @ rev (m24m02Set w) @ rev (si5340Set w))
           @ (if portIsOpen c (comms (shutdownComponents d w)) then [Call_close] else [])
           @ [WorkerResult OK, WorkerShowMessage ''Disconnected.'', StatusConnect False]"
    and "no_devices (CommsDisconnect c d w)"
  using assms
  by (simp_all add: CommsDisconnect_def Let_def emitw_def shutdownComponents_eq no_devices_def)

text \<open>
  Claim C3, as the code has it. Disconnect deletes every device record, family by
  family in the order BERT core, clock synthesizer, I/O expander, EEPROM, reference
  clock, within a family the last discovered first; only then, if the port is open, it
  closes the transport, and then it reports the outcome. No device record is left.
\<close>

theorem disconnect_teardown_order:
  assumes "flagWorkerReady w"
  shows "trace (CommsDisconnect c d w) =
           trace w
           @ map Call_delete (rev (gt1724Set w) @ rev (lmxClockSet w) @ rev (pca9557Set w)
                              @ rev (m24m02Set w) @ rev (si5340Set w))
           @ (if portIsOpen c (comms (shutdownComponents d w)) then [Call_close] else [])
           @ [WorkerResult OK, WorkerShowMessage ''Disconnected.'', StatusConnect False]
       \<and> no_devices (CommsDisconnect c d w)"
  using CommsDisconnect_trace [OF assms, of c d] by simp

lemma worker_connected_devices:
  "gt1724Set worker_connected = [new_GT1724 0x12 0, new_GT1724 0x14 4]"
  "lmxClockSet worker_connected = [new_LMX2594 0x28 0 (new_M24M02 0x50 0)]"
  "pca9557Set worker_connected = [new_PCA9557 0x1C 0]"
  "m24m02Set worker_connected = [new_M24M02 0x50 0]"
  "si5340Set worker_connected = []"
  "flagWorkerReady worker_connected"
  "sim_port_open (comms worker_connected)"
  by (simp_all add: worker_connected_def board1_def run_defs)

theorem disconnect_teardown_order_witness:
  "flagWorkerReady worker_connected
   \<and> since worker_connected (CommsDisconnect sim_comms sim_drivers worker_connected) =
       [Call_delete (new_GT1724 0x14 4), Call_delete (new_GT1724 0x12 0),
        Call_delete (new_LMX2594 0x28 0 (new_M24M02 0x50 0)),
        Call_delete (new_PCA9557 0x1C 0), Call_delete (new_M24M02 0x50 0),
        Call_close,
        WorkerResult OK, WorkerShowMessage ''Disconnected.'', StatusConnect False]
   \<and> no_devices (CommsDisconnect sim_comms sim_drivers worker_connected)"
proof -
  have "sim_port_open (comms (shutdownComponents sim_drivers worker_connected))"
    by (simp add: shutdownComponents_eq worker_connected_devices)
  then show ?thesis
    using disconnect_teardown_order [of worker_connected sim_comms sim_drivers]
    by (simp add: worker_connected_devices)
qed

text \<open>
  Claim C3 as the specification words it, with the I/O expander torn down before the
  clock synthesizer, does not hold: on the single board the clock synthesizer is
  deleted before the I/O expander.
\<close>

theorem teardown_order_counterexample:
  "map family_of (deleted (since worker_connected
                            (CommsDisconnect sim_comms sim_drivers worker_connected))) =
     [GT1724, GT1724, LMX2594, PCA9557, M24M02]
   \<and> \<not> sorted (map teardown_rank_spec [GT1724, GT1724, LMX2594, PCA9557, M24M02])"
proof -
  have "sim_port_open (comms (shutdownComponents sim_drivers worker_connected))"
    by (simp add: shutdownComponents_eq worker_connected_devices)
  then have "since worker_connected (CommsDisconnect sim_comms sim_drivers worker_connected) =
       [Call_delete (new_GT1724 0x14 4), Call_delete (new_GT1724 0x12 0),
        Call_delete (new_LMX2594 0x28 0 (new_M24M02 0x50 0)),
        Call_delete (new_PCA9557 0x1C 0), Call_delete (new_M24M02 0x50 0),
        Call_close,
        WorkerResult OK, WorkerShowMessage ''Disconnected.'', StatusConnect False]"
    by (simp add: CommsDisconnect_def Let_def emitw_def shutdownComponents_eq
          worker_connected_devices since_def)
  then show ?thesis by simp
qed

subsection \<open>Connect and disconnect when there is nothing to do\<close>

text \<open>
  Claim C9. Disconnect called on a worker that is disconnected (port not open, no
  device record) deletes nothing, does not touch the comms object and reports success;
  connect called while the port is open reports success and leaves the comms object
  and every device list as they are.
\<close>

theorem connect_disconnect_idempotent:
  "(flagWorkerReady w \<and> \<not> portIsOpen c (comms w) \<and> no_devices w \<longrightarrow>
      CommsDisconnect c d w =
        emitw [WorkerResult OK, WorkerShowMessage ''Disconnected.'', StatusConnect False] w)
 \<and> (flagWorkerReady w' \<and> portIsOpen c (comms w') \<longrightarrow>
      CommsConnect c d w' port = emitw [WorkerShowMessage ''Connected.'', StatusConnect True] w')"
  by (simp add: CommsDisconnect_def CommsConnect_def Let_def emitw_def shutdownComponents_eq
        no_devices_def)

theorem connect_disconnect_idempotent_witness:
  "flagWorkerReady (worker0 board1) \<and> \<not> sim_port_open (comms (worker0 board1))
   \<and> no_devices (worker0 board1)
   \<and> CommsDisconnect sim_comms sim_drivers (worker0 board1) =
       (worker0 board1)\<lparr>trace := [WorkerResult OK, WorkerShowMessage ''Disconnected.'',
                                    StatusConnect False]\<rparr>
   \<and> flagWorkerReady worker_connected \<and> sim_port_open (comms worker_connected)
   \<and> CommsConnect sim_comms sim_drivers worker_connected ''COM1'' =
       worker_connected\<lparr>trace := trace worker_connected
                                   @ [WorkerShowMessage ''Connected.'', StatusConnect True]\<rparr>"
  using connect_disconnect_idempotent
          [of "worker0 board1" sim_comms sim_drivers worker_connected "''COM1''"]
  by (simp add: worker_connected_devices no_devices_def emitw_def)
     (simp add: worker0_def board1_def sim_bus0_def)

subsection \<open>Failure of a connect attempt\<close>

lemma probe_filter:
  assumes "\<And>dev n. \<not> P (added dev n)"
    and "probe d fam mk added step addrs n b devs tr = (b', devs', tr')"
  shows "filter P tr' = filter P tr"
  using assms(2)
proof (induction addrs arbitrary: n b devs tr)
  case Nil
  then show ?case by simp
next
  case (Cons a addrs)
  obtain found b1 where p: "drv_ping d fam b a = (found, b1)" by (cases "drv_ping d fam b a")
  show ?case
  proof (cases found)
    case True
    with Cons.prems p have "probe d fam mk added step addrs (n + step) b1
                   (devs @ [mk a n]) (tr @ [added (mk a n) n]) = (b', devs', tr')" by simp
    from Cons.IH [OF this] assms(1) show ?thesis by simp
  next
    case False
    with Cons.prems p have "probe d fam mk added step addrs n b1 devs tr = (b', devs', tr')"
      by simp
    from Cons.IH [OF this] show ?thesis .
  qed
qed

lemma findComponents_filter:
  assumes "findComponents d w = (result, w2)"
    and "\<And>dev n. \<not> P (GT1724Added dev n)" "\<And>dev n. \<not> P (M24M02Added dev n)"
    and "\<And>dev n. \<not> P (LMX2594Added dev n)" "\<And>dev n. \<not> P (PCA9557Added dev n)"
    and "\<And>dev n. \<not> P (SI5340Added dev n)" "\<And>s. \<not> P (WorkerShowMessage s)"
  shows "filter P (trace w2) = filter P (trace w)"
proof -
  note ps = probe_filter [where P = P]
  show ?thesis
    using assms(1)
    by (auto simp: findComponents_def Let_def emitw_def assms(2-)
          split: prod.splits if_splits dest!: ps [rotated])
qed

lemma findComponents_ready:
  "findComponents d w = (result, w2) \<Longrightarrow> flagWorkerReady w2 = flagWorkerReady w"
  by (auto simp: findComponents_def Let_def emitw_def split: prod.splits if_splits)

lemma InitComponents_no_teardown:
  assumes "flagWorkerReady w"
  shows "same_devices w (InitComponents d w)
       \<and> (\<exists>evs. trace (InitComponents d w) =
             trace w @ WorkerShowMessage ''Comms Open. Initializing system components...'' # evs
               @ [WorkerResult (fst (initComponents d
                     (emitw [WorkerShowMessage ''Comms Open. Initializing system components...''] w))),
                  WorkerShowMessage ''Ready.'']
           \<and> filter is_teardown evs = [])"
proof -
  let ?w0 = "emitw [WorkerShowMessage ''Comms Open. Initializing system components...''] w"
  obtain result w1 where run: "initComponents d ?w0 = (result, w1)"
    by (cases "initComponents d ?w0")
  from initComponents_outcome [OF run] obtain b evs where
    w1: "w1 = ?w0\<lparr>comms := b, trace := trace ?w0 @ evs\<rparr>"
    and out: "\<not> (\<exists>e \<in> set evs. is_teardown e)"
    unfolding init_outcome_def by blast
  from out have clean: "filter is_teardown evs = []"
    by (simp add: filter_empty_conv)
  have final: "InitComponents d w = emitw [WorkerResult result, WorkerShowMessage ''Ready.''] w1"
    using assms run by (simp add: InitComponents_def)
  have "trace (InitComponents d w) =
          trace w @ WorkerShowMessage ''Comms Open. Initializing system components...'' # evs
            @ [WorkerResult result, WorkerShowMessage ''Ready.'']"
    by (simp add: final w1 emitw_def)
  moreover have "same_devices w (InitComponents d w)"
    by (simp add: final w1 emitw_def same_devices_def)
  ultimately show ?thesis using run clean by auto
qed

text \<open>
  Claim C1, as the code has it. When discovery fails because no BERT core was found,
  the connect attempt ends in a full disconnect: no device record is left, the
  transport is closed (given that \<^verbatim>\<open>close\<close> closes the port), and the one connection
  status the caller is sent is \<^verbatim>\<open>StatusConnect(false)\<close>. When discovery fails because
  no EEPROM, no clock synthesizer or no I/O expander was found, the worker goes on from
  the state discovery left, with the device records created so far and the port as it
  is, and sends \<^verbatim>\<open>StatusConnect(true)\<close>. When initialisation is then run, whatever
  its result, the device lists stay as they are, nothing is deleted or closed, and the
  result is sent as \<^verbatim>\<open>WorkerResult\<close>.
\<close>

theorem connect_failure_policy:
  assumes "flagWorkerReady w" and "\<not> portIsOpen c (comms w)"
    and "comms_open c (comms w) port = (OK, b1)"
    and "findComponents d (opened w port b1) = (result, w2)"
  shows "(result = MISSING_GT1724 \<and> (\<forall>b. \<not> portIsOpen c (comms_close c b)) \<longrightarrow>
            no_devices (CommsConnect c d w port)
          \<and> \<not> portIsOpen c (comms (CommsConnect c d w port))
          \<and> filter is_StatusConnect (trace (CommsConnect c d w port)) =
              filter is_StatusConnect (trace w) @ [StatusConnect False])
       \<and> (result = MISSING_EEPROM \<or> result = MISSING_LMX \<or> result = MISSING_PCA \<longrightarrow>
            CommsConnect c d w port = emitw [StatusConnect True] w2)
       \<and> same_devices w2 (InitComponents d w2)
       \<and> (\<exists>evs. trace (InitComponents d w2) =
             trace w2 @ WorkerShowMessage ''Comms Open. Initializing system components...'' # evs
               @ [WorkerResult (fst (initComponents d
                     (emitw [WorkerShowMessage ''Comms Open. Initializing system components...''] w2))),
                  WorkerShowMessage ''Ready.'']
           \<and> filter is_teardown evs = [])"
proof -
  have status: "filter is_StatusConnect (trace w2) = filter is_StatusConnect (trace w)"
    using findComponents_filter [OF assms(4), of is_StatusConnect]
    by (simp add: is_StatusConnect_def emitw_def opened_def)
  have ready: "flagWorkerReady w2"
    using assms(1) findComponents_ready [OF assms(4)] by (simp add: opened_def emitw_def)
  have gt: "result = MISSING_GT1724 \<Longrightarrow>
      CommsConnect c d w port =
        emitw [WorkerShowMessage ''Connect FAILED: Error setting up system components!'']
          (CommsDisconnect c d w2)"
    using assms by (simp add: CommsConnect_def opened_def Let_def status_defs)
  have other: "result = MISSING_EEPROM \<or> result = MISSING_LMX \<or> result = MISSING_PCA \<longrightarrow>
      CommsConnect c d w port = emitw [StatusConnect True] w2"
    using assms by (auto simp add: CommsConnect_def opened_def Let_def status_defs)
  have full: "no_devices (CommsConnect c d w port)
      \<and> \<not> portIsOpen c (comms (CommsConnect c d w port))
      \<and> filter is_StatusConnect (trace (CommsConnect c d w port)) =
          filter is_StatusConnect (trace w) @ [StatusConnect False]"
    if r: "result = MISSING_GT1724" and cl: "\<forall>b. \<not> portIsOpen c (comms_close c b)"
  proof -
    have "filter is_StatusConnect (trace (CommsDisconnect c d w2)) =
            filter is_StatusConnect (trace w) @ [StatusConnect False]"
      using CommsDisconnect_trace(1) [OF ready, of c d] status
      by (simp add: is_StatusConnect_def o_def)
    moreover have "no_devices (CommsDisconnect c d w2)"
      using CommsDisconnect_trace(2) [OF ready, of c d] by simp
    moreover have "\<not> portIsOpen c (comms (CommsDisconnect c d w2))"
      using ready cl by (simp add: CommsDisconnect_def Let_def emitw_def)
    ultimately show ?thesis
      by (simp add: gt [OF r] emitw_def no_devices_def is_StatusConnect_def)
  qed
  with other InitComponents_no_teardown [OF ready, of d] show ?thesis by blast
qed

theorem connect_failure_policy_witness:
  "flagWorkerReady (worker0 (sim_bus0 []))
   \<and> \<not> sim_port_open (comms (worker0 (sim_bus0 [])))
   \<and> fst (sim_open (sim_bus0 []) ''COM1'') = OK
   \<and> fst (findComponents sim_drivers
            (opened (worker0 (sim_bus0 [])) ''COM1'' (snd (sim_open (sim_bus0 []) ''COM1''))))
       = MISSING_GT1724
   \<and> (\<forall>b. \<not> sim_port_open (sim_close b))
   \<and> no_devices (CommsConnect sim_comms sim_drivers (worker0 (sim_bus0 [])) ''COM1'')
   \<and> \<not> sim_port_open (comms (CommsConnect sim_comms sim_drivers (worker0 (sim_bus0 [])) ''COM1''))
   \<and> filter is_StatusConnect
        (trace (CommsConnect sim_comms sim_drivers (worker0 (sim_bus0 [])) ''COM1'')) =
       [StatusConnect False]
   \<and> fst (findComponents sim_drivers
            (opened (worker0 (sim_bus0 [0x12])) ''COM1'' (snd (sim_open (sim_bus0 [0x12]) ''COM1''))))
       = MISSING_EEPROM
   \<and> CommsConnect sim_comms sim_drivers (worker0 (sim_bus0 [0x12])) ''COM1'' =
       emitw [StatusConnect True]
         (snd (findComponents sim_drivers
                 (opened (worker0 (sim_bus0 [0x12])) ''COM1''
                    (snd (sim_open (sim_bus0 [0x12]) ''COM1'')))))"
proof -
  let ?w = "worker0 (sim_bus0 [])"
  let ?b1 = "snd (sim_open (sim_bus0 []) ''COM1'')"
  let ?v = "worker0 (sim_bus0 [0x12])"
  let ?c1 = "snd (sim_open (sim_bus0 [0x12]) ''COM1'')"
  have h1: "flagWorkerReady ?w" "\<not> portIsOpen sim_comms (comms ?w)"
    by (simp_all add: worker0_def sim_bus0_def)
  have h2: "comms_open sim_comms (comms ?w) ''COM1'' = (OK, ?b1)"
    by (simp add: worker0_def sim_defs status_defs)
  have h3: "findComponents sim_drivers (opened ?w ''COM1'' ?b1) =
              (MISSING_GT1724, snd (findComponents sim_drivers (opened ?w ''COM1'' ?b1)))"
    by (simp add: run_defs)
  have h4: "\<forall>b. \<not> portIsOpen sim_comms (comms_close sim_comms b)"
    by (simp add: sim_close_def)
  from connect_failure_policy [OF h1 h2 h3] h4
  have main: "no_devices (CommsConnect sim_comms sim_drivers ?w ''COM1'')
      \<and> \<not> portIsOpen sim_comms (comms (CommsConnect sim_comms sim_drivers ?w ''COM1''))
      \<and> filter is_StatusConnect (trace (CommsConnect sim_comms sim_drivers ?w ''COM1'')) =
          filter is_StatusConnect (trace ?w) @ [StatusConnect False]"
    by blast
  have g1: "\<not> sim_port_open (comms ?w)" "trace ?w = []"
    by (simp_all add: worker0_def sim_bus0_def)
  have g2: "fst (sim_open (sim_bus0 []) ''COM1'') = OK"
    by (simp add: sim_defs status_defs)
  have g3: "fst (findComponents sim_drivers (opened ?w ''COM1'' ?b1)) = MISSING_GT1724"
    using h3 by (metis fst_conv)
  have g4: "\<forall>b. \<not> sim_port_open (sim_close b)"
    by (simp add: sim_close_def)
  have k1: "flagWorkerReady ?v" "\<not> portIsOpen sim_comms (comms ?v)"
    by (simp_all add: worker0_def sim_bus0_def)
  have k2: "comms_open sim_comms (comms ?v) ''COM1'' = (OK, ?c1)"
    by (simp add: worker0_def sim_defs status_defs)
  have k3: "findComponents sim_drivers (opened ?v ''COM1'' ?c1) =
              (MISSING_EEPROM, snd (findComponents sim_drivers (opened ?v ''COM1'' ?c1)))"
    by (simp add: run_defs)
  from connect_failure_policy [OF k1 k2 k3]
  have second: "CommsConnect sim_comms sim_drivers ?v ''COM1'' =
      emitw [StatusConnect True] (snd (findComponents sim_drivers (opened ?v ''COM1'' ?c1)))"
    by blast
  have g5: "fst (findComponents sim_drivers (opened ?v ''COM1'' ?c1)) = MISSING_EEPROM"
    using k3 by (metis fst_conv)
  from main h1(1) g1 g2 g3 g4 g5 second show ?thesis
    by simp
qed

text \<open>
  Claim C1 as the specification words it does not hold. With a BERT core on the bus
  and no EEPROM, discovery fails with the missing-EEPROM code; the worker keeps the
  device record of the BERT core, leaves the port open, tears nothing down and sends
  \<^verbatim>\<open>StatusConnect(true)\<close>. And when the I/O expander's \<^verbatim>\<open>init()\<close> fails on the single
  board, \<^verbatim>\<open>InitComponents\<close> sends the error code and tears nothing down.
\<close>

theorem connect_failure_counterexample:
  "fst (findComponents sim_drivers
          (opened (worker0 (sim_bus0 [0x12])) ''COM1'' (snd (sim_open (sim_bus0 [0x12]) ''COM1''))))
     = MISSING_EEPROM
   \<and> gt1724Set (CommsConnect sim_comms sim_drivers (worker0 (sim_bus0 [0x12])) ''COM1'') =
       [new_GT1724 0x12 0]
   \<and> sim_port_open (comms (CommsConnect sim_comms sim_drivers (worker0 (sim_bus0 [0x12])) ''COM1''))
   \<and> trace (CommsConnect sim_comms sim_drivers (worker0 (sim_bus0 [0x12])) ''COM1'') =
       [Call_open ''COM1'' OK,
        WorkerShowMessage ''Comms Open. Checking system components...'',
        GT1724Added (new_GT1724 0x12 0) 0,
        WorkerShowMessage ''Data EEPROM not found!'',
        StatusConnect True]
   \<and> fst (initComponents sim_drivers
            (emitw [WorkerShowMessage ''Comms Open. Initializing system components...'']
               worker_init_fault)) = WRITE_ERROR
   \<and> gt1724Set (InitComponents sim_drivers worker_init_fault) =
       [new_GT1724 0x12 0, new_GT1724 0x14 4]
   \<and> sim_port_open (comms (InitComponents sim_drivers worker_init_fault))
   \<and> filter is_teardown (trace (InitComponents sim_drivers worker_init_fault)) = []"
  by (simp add: worker_init_fault_def worker_connected_def board1_def run_defs is_teardown_def)

end
